theory Spec2Isabelle
  imports Complex_Main "HOL-Library.Sublist"
begin

section \<open>Python strings\<close>

text \<open>
  A Python \<open>str\<close> is a sequence of Unicode code points and \<open>len\<close> counts code points,
  so a string is a list of code points (natural numbers). \<open>lit\<close> turns an ASCII literal
  into that representation.
\<close>

type_synonym pystr = "nat list"

definition lit :: "string \<Rightarrow> pystr" where
  "lit s = map of_char s"

text \<open>
  \<open>str.isspace\<close> on one code point: the characters CPython treats as whitespace
  (TAB..CR, FS..US, SPACE, NEL, NBSP, OGHAM SPACE, EN QUAD..HAIR SPACE, LINE and
  PARAGRAPH SEPARATOR, NARROW NBSP, MEDIUM MATHEMATICAL SPACE, IDEOGRAPHIC SPACE).
\<close>

definition isspace :: "nat \<Rightarrow> bool" where
  "isspace c \<longleftrightarrow>
     (9 \<le> c \<and> c \<le> 13) \<or> (28 \<le> c \<and> c \<le> 32) \<or> c = 133 \<or> c = 160 \<or> c = 5760 \<or>
     (8192 \<le> c \<and> c \<le> 8202) \<or> c = 8232 \<or> c = 8233 \<or> c = 8239 \<or> c = 8287 \<or> c = 12288"

text \<open>\<open>s.strip()\<close> with no argument removes leading and trailing whitespace.\<close>

definition lstrip :: "pystr \<Rightarrow> pystr" where
  "lstrip s = dropWhile isspace s"

definition rstrip :: "pystr \<Rightarrow> pystr" where
  "rstrip s = rev (dropWhile isspace (rev s))"

definition strip :: "pystr \<Rightarrow> pystr" where
  "strip s = rstrip (lstrip s)"

text \<open>\<open>sep.join(parts)\<close>.\<close>

fun str_join :: "pystr \<Rightarrow> pystr list \<Rightarrow> pystr" where
  "str_join sep [] = []"
| "str_join sep [x] = x"
| "str_join sep (x # y # ys) = x @ sep @ str_join sep (y # ys)"

text \<open>
  \<open>s.split(c)\<close> for a one-character separator; with the line feed as separator it
  gives the lines of a text.
\<close>

fun split_on :: "nat \<Rightarrow> pystr \<Rightarrow> pystr list" where
  "split_on c [] = [[]]"
| "split_on c (x # xs) =
     (if x = c then [] # split_on c xs
      else (case split_on c xs of
              l # ls \<Rightarrow> (x # l) # ls
            | [] \<Rightarrow> [[x]]))"

text \<open>
  \<open>html.escape(s)\<close> with the default \<open>quote=True\<close>: \<open>&\<close>, \<open><\<close>, \<open>>\<close>, the double quote
  and the single quote are replaced, the ampersand first; no replacement text holds a
  character that a later replacement rewrites, so the chain of \<open>replace\<close> calls is a
  character-by-character substitution.
\<close>

definition escape_char :: "nat \<Rightarrow> pystr" where
  "escape_char c =
     (if c = 38 then lit ''&amp;''
      else if c = 60 then lit ''&lt;''
      else if c = 62 then lit ''&gt;''
      else if c = 34 then lit ''&quot;''
      else if c = 39 then lit ''&#x27;''
      else [c])"

definition escape :: "pystr \<Rightarrow> pystr" where
  "escape s = concat (map escape_char s)"

text \<open>\<open>str(n)\<close> for an integer: decimal digits, with a minus sign when negative.\<close>

fun digits :: "nat \<Rightarrow> pystr" where
  "digits n = (if n < 10 then [48 + n] else digits (n div 10) @ [48 + n mod 10])"

definition str_int :: "int \<Rightarrow> pystr" where
  "str_int i = (if i < 0 then 45 # digits (nat (- i)) else digits (nat i))"

section \<open>Constants of the module\<close>

definition GPT_MODEL :: pystr where
  "GPT_MODEL = lit ''gpt-4o-mini''"

definition MAX_INPUT_LEN :: nat where
  "MAX_INPUT_LEN = 500"

definition RATE_LIMIT_SECONDS :: real where
  "RATE_LIMIT_SECONDS = 5"

definition MAX_EVIDENCE_LEN :: nat where
  "MAX_EVIDENCE_LEN = 6000"

definition SYSTEM_PROMPT :: pystr where
  "SYSTEM_PROMPT = lit (''\<newline>You are a professional fact-checking AI.\<newline>\<newline>'' @
     ''Analyze the claim using the provided evidence.\<newline>'' @
     ''Respond strictly in this format:\<newline>\<newline>'' @
     ''<b>Verdict:</b> True / False / Misleading / Partially True / Insufficient Evidence\<newline>'' @
     ''<b>Confidence:</b> 0-100%\<newline>'' @
     ''<b>Explanation:</b> Short reasoning based only on the evidence.\<newline>'' @
     ''Do not add extra commentary.\<newline>'')"

section \<open>Exceptions and the outcome of a provider call\<close>

text \<open>
  \<open>py_exn\<close> is an instance of (a subclass of) \<open>Exception\<close>: what \<open>except Exception\<close>
  catches. \<open>TimeoutError\<close> is \<open>asyncio.TimeoutError\<close>, which the handler catches in a
  clause of its own; \<open>PyException\<close> is any other exception, with its message. A call to
  an external provider either returns or raises.
\<close>

datatype py_exn = TimeoutError | PyException pystr

datatype 'a outcome = Returned 'a | Raised py_exn

section \<open>The search provider and \<open>search_web\<close>\<close>

text \<open>
  The response of the search provider is a dictionary with an optional \<open>answer\<close> string
  and a list of results, each a dictionary with optional \<open>url\<close> and \<open>content\<close>
  strings. \<open>None\<close> stands for a missing key or a \<open>None\<close> value; for \<open>results\<close>,
  \<open>None\<close> is the missing key, which \<open>response.get("results", [])\<close> reads as \<open>[]\<close>.
\<close>

record search_result =
  r_url :: "pystr option"
  r_content :: "pystr option"

record search_response =
  resp_answer :: "pystr option"
  resp_results :: "search_result list option"

text \<open>The keyword arguments of \<open>tavily_client.search\<close>.\<close>

record tavily_request =
  query :: pystr
  search_depth :: pystr
  max_results :: nat
  include_answer :: bool
  include_raw_content :: bool

type_synonym tavily = "tavily_request \<Rightarrow> search_response outcome"

definition search_request :: "pystr \<Rightarrow> tavily_request" where
  "search_request q =
     \<lparr>query = q, search_depth = lit ''advanced'', max_results = 5,
      include_answer = True, include_raw_content = False\<rparr>"

text \<open>Truthiness of an optional string: \<open>None\<close> and \<open>""\<close> are false.\<close>

fun truthy :: "pystr option \<Rightarrow> bool" where
  "truthy None = False"
| "truthy (Some s) = (s \<noteq> [])"

text \<open>
  The \<open>for r in response.get("results", [])\<close> loop, threading the two lists
  \<open>parts\<close> and \<open>urls\<close>.
\<close>

fun results_loop :: "search_result list \<Rightarrow> pystr list \<Rightarrow> pystr list \<Rightarrow> pystr list \<times> pystr list" where
  "results_loop [] parts urls = (parts, urls)"
| "results_loop (r # rs) parts urls =
     (let urls' = (case r_url r of
                     Some u \<Rightarrow> if truthy (Some u) then urls @ [u] else urls
                   | None \<Rightarrow> urls);
          parts' = (case r_content r of
                      Some c \<Rightarrow> if truthy (Some c) then parts @ [strip c] else parts
                    | None \<Rightarrow> parts)
      in results_loop rs parts' urls')"

text \<open>Lines 79 to 93 of \<open>search_web\<close>: the segments and the URLs of a response.\<close>

definition assemble :: "search_response \<Rightarrow> pystr list \<times> pystr list" where
  "assemble response =
     (let parts = (case resp_answer response of
                     Some a \<Rightarrow> if truthy (Some a) then [lit ''Summary: '' @ a] else []
                   | None \<Rightarrow> [])
      in results_loop (case resp_results response of Some rs \<Rightarrow> rs | None \<Rightarrow> []) parts [])"

definition SEPARATOR :: pystr where
  "SEPARATOR = lit ''\<newline>\<newline>---\<newline>\<newline>''"

definition TRUNCATION_MARKER :: pystr where
  "TRUNCATION_MARKER = lit ''\<newline>... [truncated]''"

text \<open>
  The body of the \<open>try\<close> block of \<open>search_web\<close>: \<open>Inl\<close> is an exception leaving the
  block, \<open>Inr\<close> the value of \<open>return evidence, urls\<close>.
\<close>

definition search_web_try :: "tavily \<Rightarrow> pystr \<Rightarrow> py_exn + (pystr \<times> pystr list)" where
  "search_web_try tavily_search q =
     (case tavily_search (search_request q) of
        Raised e \<Rightarrow> Inl e
      | Returned response \<Rightarrow>
          (let (parts, urls) = assemble response;
               evidence = str_join SEPARATOR parts;
               evidence = (if length evidence > MAX_EVIDENCE_LEN
                           then take MAX_EVIDENCE_LEN evidence @ TRUNCATION_MARKER
                           else evidence)
           in Inr (evidence, urls)))"

text \<open>\<open>search_web\<close>: the \<open>try\<close> block with its \<open>except Exception: return "", []\<close>.\<close>

definition search_web :: "tavily \<Rightarrow> pystr \<Rightarrow> pystr \<times> pystr list" where
  "search_web tavily_search q =
     (case search_web_try tavily_search q of
        Inl e \<Rightarrow> ([], [])
      | Inr bundle \<Rightarrow> bundle)"

section \<open>The model provider\<close>

text \<open>The keyword arguments of \<open>openai_client.responses.create\<close>.\<close>

record model_request =
  model :: pystr
  temperature :: nat
  max_output_tokens :: nat
  system_content :: pystr
  user_content :: pystr
  metadata_user_id :: pystr

text \<open>
  \<open>fact_check\<close> awaits the model call, and its caller runs \<open>fact_check\<close> under
  \<open>asyncio.wait_for(..., timeout=40)\<close>. The awaited call is the only suspension point
  of \<open>fact_check\<close>, so it ends in one of three ways: the response arrives
  (\<open>Done output_text\<close>), the client raises an \<open>Exception\<close> (\<open>Failed\<close>), or the deadline
  passes first and \<open>wait_for\<close> cancels the task (\<open>Cancelled\<close>): \<open>CancelledError\<close> is thrown
  into \<open>fact_check\<close> at the \<open>await\<close>. It derives from \<open>BaseException\<close>, so
  \<open>except Exception\<close> does not catch it.
\<close>

datatype 'a awaited = Done 'a | Failed py_exn | Cancelled

type_synonym openai = "model_request \<Rightarrow> pystr awaited"

definition make_request :: "pystr \<Rightarrow> pystr \<Rightarrow> int \<Rightarrow> model_request" where
  "make_request claim evidence user_id =
     \<lparr>model = GPT_MODEL, temperature = 0, max_output_tokens = 600,
      system_content = SYSTEM_PROMPT,
      user_content = lit ''Claim:\<newline>'' @ claim @ lit ''\<newline>\<newline>Evidence:\<newline>'' @ evidence,
      metadata_user_id = str_int user_id\<rparr>"

section \<open>State, environment and effects\<close>

text \<open>
  The two module-level dictionaries. \<open>user_last_request\<close> is a \<open>defaultdict(float)\<close>:
  reading a missing key yields \<open>0.0\<close> and inserts it.
\<close>

record bot_state =
  user_last_request :: "int \<rightharpoonup> real"
  fact_cache :: "pystr \<rightharpoonup> pystr"

definition initial_state :: bot_state where
  "initial_state = \<lparr>user_last_request = Map.empty, fact_cache = Map.empty\<rparr>"

definition defaultdict_get :: "(int \<rightharpoonup> real) \<Rightarrow> int \<Rightarrow> real \<times> (int \<rightharpoonup> real)" where
  "defaultdict_get d k = (case d k of Some v \<Rightarrow> (v, d) | None \<Rightarrow> (0, d(k \<mapsto> 0)))"

text \<open>
  What the outside world does during one call: the search provider, the model provider,
  and whether Telegram accepts the edit that carries the result (the only transport call
  inside the handler's \<open>try\<close> block).
\<close>

record env =
  tavily_search :: tavily
  openai_create :: openai
  telegram_edit :: "pystr \<Rightarrow> unit outcome"

text \<open>
  The external effects of a call, in program order: provider invocations (the model call
  with how it ended) and messages sent through the transport.
\<close>

datatype event =
    SearchCall tavily_request
  | ModelCall model_request "pystr awaited"
  | ReplyText pystr
  | SendTyping
  | EditText pystr

section \<open>\<open>fact_check\<close>\<close>

definition INSUFFICIENT_EVIDENCE :: pystr where
  "INSUFFICIENT_EVIDENCE =
     lit (''<b>Verdict:</b> Insufficient Evidence\<newline>'' @
          ''<b>Confidence:</b> 0%\<newline>'' @
          ''<b>Explanation:</b> No reliable sources found.'')"

definition AI_FAILED :: pystr where
  "AI_FAILED = lit ''AI processing failed. Please try again later.''"

definition SOURCES_HEADER :: pystr where
  "SOURCES_HEADER = lit ''\<newline>\<newline><b>Sources:</b>\<newline>''"

text \<open>
  The literal prefix of the f-string on line 146, as the source file has it: the code
  points U+00E2, U+20AC, U+00A2 and a space.
\<close>

definition BULLET :: pystr where
  "BULLET = [226, 8364, 162, 32]"

definition source_lines :: "pystr list \<Rightarrow> pystr list" where
  "source_lines urls = map (\<lambda>u. BULLET @ escape u) urls"

text \<open>Lines 144 to 146: \<open>if urls: verdict_text += ...\<close>.\<close>

definition add_sources :: "pystr \<Rightarrow> pystr list \<Rightarrow> pystr" where
  "add_sources verdict_text urls =
     (if urls \<noteq> []
      then verdict_text @ SOURCES_HEADER @ str_join (lit ''\<newline>'') (source_lines urls)
      else verdict_text)"

text \<open>
  How a call of \<open>fact_check\<close> ends: it returns a string, or \<open>CancelledError\<close> leaves it
  (the deadline of the caller passed during the model call).
\<close>

datatype fc_exit = Return pystr | CancelledError

text \<open>
  \<open>search_web\<close> makes its one provider call as soon as it is entered; \<open>fact_check\<close>
  records it as \<open>SearchCall\<close> where it calls \<open>search_web\<close>.
\<close>

definition fact_check :: "env \<Rightarrow> pystr \<Rightarrow> int \<Rightarrow> bot_state \<Rightarrow> fc_exit \<times> bot_state \<times> event list" where
  "fact_check e claim user_id s =
     (case fact_cache s claim of
        Some cached \<Rightarrow> (Return cached, s, [])
      | None \<Rightarrow>
          (let (evidence, urls) = search_web (tavily_search e) claim;
               searched = [SearchCall (search_request claim)]
           in if strip evidence = [] then (Return INSUFFICIENT_EVIDENCE, s, searched)
              else
                (let request = make_request claim evidence user_id
                 in case openai_create e request of
                      Failed x \<Rightarrow> (Return AI_FAILED, s, searched @ [ModelCall request (Failed x)])
                    | Cancelled \<Rightarrow> (CancelledError, s, searched @ [ModelCall request Cancelled])
                    | Done output_text \<Rightarrow>
                        (let verdict_text = add_sources (strip output_text) urls
                         in (Return verdict_text,
                             s\<lparr>fact_cache := (fact_cache s)(claim \<mapsto> verdict_text)\<rparr>,
                             searched @ [ModelCall request (Done output_text)])))))"

section \<open>\<open>handle_message\<close>\<close>

record update =
  message_text :: "pystr option"
  effective_user_id :: int

definition INVALID_CLAIM :: pystr where
  "INVALID_CLAIM = lit ''Please send a valid claim.''"

definition TOO_LONG :: pystr where
  "TOO_LONG = lit ''Message too long (max '' @ str_int (int MAX_INPUT_LEN) @ lit '' characters).''"

definition PLEASE_WAIT :: pystr where
  "PLEASE_WAIT = lit ''Please wait before sending another request.''"

definition THINKING :: pystr where
  "THINKING = lit ''News-checking... Please wait.''"

definition TIMED_OUT :: pystr where
  "TIMED_OUT = lit '' Request timed out. Please try again.''"

definition ERROR_PROCESSING :: pystr where
  "ERROR_PROCESSING = lit '' Error processing request.''"

text \<open>
  Lines 177 to 183, the rate-limit gate: \<open>now\<close> is the value of \<open>time.time()\<close>. The
  result says whether the request goes on; the read of the \<open>defaultdict\<close> inserts
  \<open>0.0\<close> for a user it has no entry for. Timestamps are floating-point seconds in the
  source and real numbers here, so the difference is taken without rounding.
\<close>

definition rate_limit_gate :: "int \<Rightarrow> real \<Rightarrow> bot_state \<Rightarrow> bool \<times> bot_state" where
  "rate_limit_gate user_id now s =
     (let (last, d) = defaultdict_get (user_last_request s) user_id
      in if now - last < RATE_LIMIT_SECONDS
         then (False, s\<lparr>user_last_request := d\<rparr>)
         else (True, s\<lparr>user_last_request := d(user_id \<mapsto> now)\<rparr>))"

text \<open>The timestamp that \<open>user_last_request[user_id]\<close> reads in a state.\<close>

definition last_request :: "bot_state \<Rightarrow> int \<Rightarrow> real" where
  "last_request s user_id = fst (defaultdict_get (user_last_request s) user_id)"

text \<open>
  The \<open>try\<close> block of \<open>handle_message\<close> with its two handlers. \<open>wait_for\<close> turns the
  cancellation of \<open>fact_check\<close> into \<open>asyncio.TimeoutError\<close>. An exception of the edit
  that carries the result is caught by the first clause when it is an
  \<open>asyncio.TimeoutError\<close> and by \<open>except Exception\<close> otherwise.
\<close>

definition run_fact_check :: "env \<Rightarrow> pystr \<Rightarrow> int \<Rightarrow> bot_state \<Rightarrow> bot_state \<times> event list" where
  "run_fact_check e claim user_id s =
     (let (exit, s', calls) = fact_check e claim user_id s
      in case exit of
           CancelledError \<Rightarrow> (s', calls @ [EditText TIMED_OUT])
         | Return result \<Rightarrow>
             (case telegram_edit e result of
                Returned u \<Rightarrow> (s', calls @ [EditText result])
              | Raised TimeoutError \<Rightarrow> (s', calls @ [EditText TIMED_OUT])
              | Raised (PyException m) \<Rightarrow> (s', calls @ [EditText ERROR_PROCESSING])))"

text \<open>\<open>(update.message.text or "").strip()\<close>.\<close>

definition claim_of :: "update \<Rightarrow> pystr" where
  "claim_of upd = strip (case message_text upd of Some t \<Rightarrow> t | None \<Rightarrow> [])"

definition handle_message :: "env \<Rightarrow> update \<Rightarrow> real \<Rightarrow> bot_state \<Rightarrow> bot_state \<times> event list" where
  "handle_message e upd now s =
     (let claim = claim_of upd;
          user_id = effective_user_id upd
      in if claim = [] then (s, [ReplyText INVALID_CLAIM])
         else if length claim > MAX_INPUT_LEN then (s, [ReplyText TOO_LONG])
         else
           (let (allowed, s1) = rate_limit_gate user_id now s
            in if \<not> allowed then (s1, [ReplyText PLEASE_WAIT])
               else
                 (let (s2, evs) = run_fact_check e claim user_id s1
                  in (s2, [SendTyping, ReplyText THINKING] @ evs))))"

section \<open>Runs of the bot\<close>

text \<open>
  The application handles one update at a time (the default of the framework), so a
  run is a sequence of calls, each with its own behaviour of the outside world. The
  second component is the log of all external effects so far.
\<close>

inductive reachable :: "bot_state \<Rightarrow> event list \<Rightarrow> bool" where
  start: "reachable initial_state []"
| message: "reachable s hist \<Longrightarrow> handle_message e upd now s = (s', evs) \<Longrightarrow> reachable s' (hist @ evs)"
| check: "reachable s hist \<Longrightarrow> fact_check e claim user_id s = (x, s', evs) \<Longrightarrow> reachable s' (hist @ evs)"

section \<open>Concrete inputs for the worked examples\<close>

text \<open>
  A claim, a search response with one result that has a URL and content, and a model
  response; providers that fail; a response whose only result has a URL and no content;
  a response with a summary and no results; a response whose two segments are 3009 and
  3100 characters long; a model provider that answers with the text of the failure
  message and one that answers with the empty text; a result whose URL contains a line
  feed; and a message of 500 letters followed by a space.
\<close>

definition MOON :: pystr where
  "MOON = lit ''The moon is made of cheese''"

definition moon_response :: search_response where
  "moon_response =
     \<lparr>resp_answer = None,
      resp_results = Some [\<lparr>r_url = Some (lit ''https://example.com/moon?a=1&b=2''),
                              r_content = Some (lit ''The moon is composed of rock and dust.'')\<rparr>]\<rparr>"

definition tavily_moon :: tavily where
  "tavily_moon rq = Returned moon_response"

definition tavily_down :: tavily where
  "tavily_down rq = Raised (PyException (lit ''network error''))"

definition url_only_response :: search_response where
  "url_only_response =
     \<lparr>resp_answer = None,
      resp_results = Some [\<lparr>r_url = Some (lit ''https://example.com/moon''), r_content = None\<rparr>]\<rparr>"

definition tavily_url_only :: tavily where
  "tavily_url_only rq = Returned url_only_response"

definition long_response :: search_response where
  "long_response =
     \<lparr>resp_answer = Some (replicate 3000 97),
      resp_results = Some [\<lparr>r_url = None, r_content = Some (replicate 3100 98)\<rparr>]\<rparr>"

definition tavily_long :: tavily where
  "tavily_long rq = Returned long_response"

definition openai_false :: openai where
  "openai_false rq = Done (lit ''<b>Verdict:</b> False\<newline>'')"

definition openai_down :: openai where
  "openai_down rq = Failed (PyException (lit ''provider error''))"

definition openai_slow :: openai where
  "openai_slow rq = Cancelled"

definition edit_ok :: "pystr \<Rightarrow> unit outcome" where
  "edit_ok t = Returned ()"

definition env_moon :: env where
  "env_moon = \<lparr>tavily_search = tavily_moon, openai_create = openai_false, telegram_edit = edit_ok\<rparr>"

definition env_offline :: env where
  "env_offline = \<lparr>tavily_search = tavily_down, openai_create = openai_down, telegram_edit = edit_ok\<rparr>"

definition env_model_down :: env where
  "env_model_down = \<lparr>tavily_search = tavily_moon, openai_create = openai_down, telegram_edit = edit_ok\<rparr>"

definition env_url_only :: env where
  "env_url_only = \<lparr>tavily_search = tavily_url_only, openai_create = openai_false, telegram_edit = edit_ok\<rparr>"

definition answer_only_response :: search_response where
  "answer_only_response = \<lparr>resp_answer = Some (lit ''Rock and dust.''), resp_results = None\<rparr>"

definition tavily_answer_only :: tavily where
  "tavily_answer_only rq = Returned answer_only_response"

definition env_answer_only :: env where
  "env_answer_only =
     \<lparr>tavily_search = tavily_answer_only, openai_create = openai_false, telegram_edit = edit_ok\<rparr>"

definition env_slow :: env where
  "env_slow = \<lparr>tavily_search = tavily_moon, openai_create = openai_slow, telegram_edit = edit_ok\<rparr>"

definition openai_parrot :: openai where
  "openai_parrot rq = Done (lit ''AI processing failed. Please try again later.'')"

definition env_parrot :: env where
  "env_parrot =
     \<lparr>tavily_search = tavily_answer_only, openai_create = openai_parrot, telegram_edit = edit_ok\<rparr>"

definition openai_empty :: openai where
  "openai_empty rq = Done []"

definition env_empty :: env where
  "env_empty =
     \<lparr>tavily_search = tavily_answer_only, openai_create = openai_empty, telegram_edit = edit_ok\<rparr>"

definition linefeed_response :: search_response where
  "linefeed_response =
     \<lparr>resp_answer = None,
      resp_results = Some [\<lparr>r_url = Some (lit ''https://example.com/a\<newline>b''),
                              r_content = Some (lit ''The moon is composed of rock and dust.'')\<rparr>]\<rparr>"

definition tavily_linefeed :: tavily where
  "tavily_linefeed rq = Returned linefeed_response"

definition env_linefeed :: env where
  "env_linefeed =
     \<lparr>tavily_search = tavily_linefeed, openai_create = openai_false, telegram_edit = edit_ok\<rparr>"

definition padded_long_update :: update where
  "padded_long_update =
     \<lparr>message_text = Some (replicate 500 97 @ lit '' ''), effective_user_id = 7\<rparr>"

definition MOON_VERDICT :: pystr where
  "MOON_VERDICT =
     lit ''<b>Verdict:</b> False'' @ lit ''\<newline>\<newline><b>Sources:</b>\<newline>'' @
     [226, 8364, 162, 32] @ lit ''https://example.com/moon?a=1&amp;b=2''"

definition moon_state :: bot_state where
  "moon_state = \<lparr>user_last_request = Map.empty, fact_cache = [MOON \<mapsto> MOON_VERDICT]\<rparr>"

definition moon_update :: update where
  "moon_update = \<lparr>message_text = Some MOON, effective_user_id = 7\<rparr>"

definition moon_update_padded :: update where
  "moon_update_padded = \<lparr>message_text = Some (MOON @ lit '' ''), effective_user_id = 8\<rparr>"

definition blank_update :: update where
  "blank_update = \<lparr>message_text = Some (lit ''   ''), effective_user_id = 7\<rparr>"

definition long_update :: update where
  "long_update = \<lparr>message_text = Some (replicate 501 97), effective_user_id = 7\<rparr>"

section \<open>Auxiliary facts\<close>

subsection \<open>Strings\<close>

lemma length_lit [simp]: "length (lit s) = length s"
  by (simp add: lit_def)

lemma dropWhile_id: "xs \<noteq> [] \<Longrightarrow> \<not> P (hd xs) \<Longrightarrow> dropWhile P xs = xs"
  by (cases xs) simp_all

lemma strip_Nil [simp]: "strip [] = []"
  by (simp add: strip_def lstrip_def rstrip_def)

lemma strip_id: "s \<noteq> [] \<Longrightarrow> \<not> isspace (hd s) \<Longrightarrow> \<not> isspace (last s) \<Longrightarrow> strip s = s"
  by (simp add: strip_def lstrip_def rstrip_def dropWhile_id hd_rev)

lemma strip_eq_Nil_iff: "strip s = [] \<longleftrightarrow> (\<forall>c \<in> set s. isspace c)"
proof -
  have "strip s = [] \<longleftrightarrow> (\<forall>c \<in> set (dropWhile isspace s). isspace c)"
    by (simp add: strip_def lstrip_def rstrip_def dropWhile_eq_Nil_conv)
  also have "\<dots> \<longleftrightarrow> dropWhile isspace s = []"
    by (metis dropWhile_eq_Nil_conv dropWhile_idem)
  also have "\<dots> \<longleftrightarrow> (\<forall>c \<in> set s. isspace c)"
    by (simp add: dropWhile_eq_Nil_conv)
  finally show ?thesis .
qed

lemma hd_strip: "strip s \<noteq> [] \<Longrightarrow> \<not> isspace (hd (strip s))"
proof -
  assume a: "strip s \<noteq> []"
  let ?l = "dropWhile isspace s"
  have l: "?l \<noteq> []"
  proof
    assume "?l = []"
    then have "strip s = []"
      by (simp add: strip_def lstrip_def rstrip_def del: dropWhile_eq_Nil_conv)
    with a show False by simp
  qed
  have h: "\<not> isspace (hd ?l)" using l by (rule hd_dropWhile)
  have "strip s = rev (dropWhile isspace (rev ?l))"
    by (simp add: strip_def lstrip_def rstrip_def)
  moreover have "rev ?l = takeWhile isspace (rev ?l) @ dropWhile isspace (rev ?l)" by simp
  then have "?l = rev (dropWhile isspace (rev ?l)) @ rev (takeWhile isspace (rev ?l))"
    by (metis rev_append rev_rev_ident)
  ultimately have "?l = strip s @ rev (takeWhile isspace (rev ?l))" by simp
  then have "hd ?l = hd (strip s)" using a by (metis hd_append2)
  with h show ?thesis by simp
qed

subsection \<open>\<open>search_web\<close>\<close>

lemma search_web_raised: "t (search_request q) = Raised x \<Longrightarrow> search_web t q = ([], [])"
  by (simp add: search_web_def search_web_try_def)

lemma search_web_returned:
  "t (search_request q) = Returned response \<Longrightarrow>
   search_web t q =
     (let joined = str_join SEPARATOR (fst (assemble response))
      in (if length joined > MAX_EVIDENCE_LEN
          then take MAX_EVIDENCE_LEN joined @ TRUNCATION_MARKER else joined,
          snd (assemble response)))"
  by (simp add: search_web_def search_web_try_def Let_def split: prod.splits)

lemma results_loop_eq:
  "results_loop rs parts urls =
     (parts @ [strip c. r \<leftarrow> rs, Some c \<leftarrow> [r_content r], c \<noteq> []],
      urls @ [u. r \<leftarrow> rs, Some u \<leftarrow> [r_url r], u \<noteq> []])"
  by (induction rs arbitrary: parts urls) (auto split: option.splits)

lemma assemble_eq:
  "assemble response =
     ((case resp_answer response of Some a \<Rightarrow> if a \<noteq> [] then [lit ''Summary: '' @ a] else [] | None \<Rightarrow> [])
        @ [strip c. r \<leftarrow> (case resp_results response of Some rs \<Rightarrow> rs | None \<Rightarrow> []),
             Some c \<leftarrow> [r_content r], c \<noteq> []],
      [u. r \<leftarrow> (case resp_results response of Some rs \<Rightarrow> rs | None \<Rightarrow> []),
          Some u \<leftarrow> [r_url r], u \<noteq> []])"
  by (simp add: assemble_def results_loop_eq split: option.splits)

lemma search_web_urls:
  "t (search_request q) = Returned response \<Longrightarrow>
   snd (search_web t q) =
     [u. r \<leftarrow> (case resp_results response of Some rs \<Rightarrow> rs | None \<Rightarrow> []),
         Some u \<leftarrow> [r_url r], u \<noteq> []]"
  by (simp add: search_web_returned Let_def assemble_eq)

subsection \<open>The branches of \<open>fact_check\<close>\<close>

lemma fact_check_hit:
  "fact_cache s claim = Some v \<Longrightarrow> fact_check e claim uid s = (Return v, s, [])"
  by (simp add: fact_check_def)

lemma fact_check_blank:
  "fact_cache s claim = None \<Longrightarrow> strip (fst (search_web (tavily_search e) claim)) = [] \<Longrightarrow>
   fact_check e claim uid s = (Return INSUFFICIENT_EVIDENCE, s, [SearchCall (search_request claim)])"
  by (cases "search_web (tavily_search e) claim") (simp add: fact_check_def Let_def)

lemma fact_check_failed:
  "fact_cache s claim = None \<Longrightarrow> search_web (tavily_search e) claim = (evidence, urls) \<Longrightarrow>
   strip evidence \<noteq> [] \<Longrightarrow> openai_create e (make_request claim evidence uid) = Failed x \<Longrightarrow>
   fact_check e claim uid s =
     (Return AI_FAILED, s,
      [SearchCall (search_request claim), ModelCall (make_request claim evidence uid) (Failed x)])"
  by (simp add: fact_check_def Let_def)

lemma fact_check_cancelled:
  "fact_cache s claim = None \<Longrightarrow> search_web (tavily_search e) claim = (evidence, urls) \<Longrightarrow>
   strip evidence \<noteq> [] \<Longrightarrow> openai_create e (make_request claim evidence uid) = Cancelled \<Longrightarrow>
   fact_check e claim uid s =
     (CancelledError, s,
      [SearchCall (search_request claim), ModelCall (make_request claim evidence uid) Cancelled])"
  by (simp add: fact_check_def Let_def)

lemma fact_check_done:
  "fact_cache s claim = None \<Longrightarrow> search_web (tavily_search e) claim = (evidence, urls) \<Longrightarrow>
   strip evidence \<noteq> [] \<Longrightarrow> openai_create e (make_request claim evidence uid) = Done out \<Longrightarrow>
   fact_check e claim uid s =
     (Return (add_sources (strip out) urls),
      s\<lparr>fact_cache := (fact_cache s)(claim \<mapsto> add_sources (strip out) urls)\<rparr>,
      [SearchCall (search_request claim), ModelCall (make_request claim evidence uid) (Done out)])"
  by (simp add: fact_check_def Let_def)

lemma fact_check_cases:
  obtains
    (hit) v where "fact_cache s c = Some v" "fact_check e c u s = (Return v, s, [])"
  | (blank) "fact_cache s c = None" "strip (fst (search_web (tavily_search e) c)) = []"
      "fact_check e c u s = (Return INSUFFICIENT_EVIDENCE, s, [SearchCall (search_request c)])"
  | (failed) evidence urls x where "fact_cache s c = None"
      "search_web (tavily_search e) c = (evidence, urls)" "strip evidence \<noteq> []"
      "openai_create e (make_request c evidence u) = Failed x"
      "fact_check e c u s =
         (Return AI_FAILED, s,
          [SearchCall (search_request c), ModelCall (make_request c evidence u) (Failed x)])"
  | (cancelled) evidence urls where "fact_cache s c = None"
      "search_web (tavily_search e) c = (evidence, urls)" "strip evidence \<noteq> []"
      "openai_create e (make_request c evidence u) = Cancelled"
      "fact_check e c u s =
         (CancelledError, s,
          [SearchCall (search_request c), ModelCall (make_request c evidence u) Cancelled])"
  | (answered) evidence urls out where "fact_cache s c = None"
      "search_web (tavily_search e) c = (evidence, urls)" "strip evidence \<noteq> []"
      "openai_create e (make_request c evidence u) = Done out"
      "fact_check e c u s =
         (Return (add_sources (strip out) urls),
          s\<lparr>fact_cache := (fact_cache s)(c \<mapsto> add_sources (strip out) urls)\<rparr>,
          [SearchCall (search_request c), ModelCall (make_request c evidence u) (Done out)])"
proof (cases "fact_cache s c")
  case (Some v)
  then show ?thesis using hit fact_check_hit by blast
next
  case None
  obtain evidence urls where sw: "search_web (tavily_search e) c = (evidence, urls)"
    by (cases "search_web (tavily_search e) c")
  show ?thesis
  proof (cases "strip evidence = []")
    case True
    with sw have "strip (fst (search_web (tavily_search e) c)) = []" by simp
    with None show ?thesis using blank fact_check_blank by blast
  next
    case False
    show ?thesis
    proof (cases "openai_create e (make_request c evidence u)")
      case (Done out)
      from fact_check_done [OF None sw False Done] None sw False Done show ?thesis
        using answered by blast
    next
      case (Failed x)
      from fact_check_failed [OF None sw False Failed] None sw False Failed show ?thesis
        using failed by blast
    next
      case Cancelled
      from fact_check_cancelled [OF None sw False Cancelled] None sw False Cancelled show ?thesis
        using cancelled by blast
    qed
  qed
qed

lemma fact_check_user_last_request:
  "user_last_request (fst (snd (fact_check e c u s))) = user_last_request s"
  by (rule fact_check_cases [where s=s and c=c and e=e and u=u]) simp_all

lemma fact_check_other_keys:
  "c' \<noteq> c \<Longrightarrow> fact_cache (fst (snd (fact_check e c u s))) c' = fact_cache s c'"
  by (rule fact_check_cases [where s=s and c=c and e=e and u=u]) simp_all

subsection \<open>The handler\<close>

lemma run_fact_check_state: "fst (run_fact_check e c u s) = fst (snd (fact_check e c u s))"
  by (simp add: run_fact_check_def split: prod.splits fc_exit.splits outcome.splits py_exn.splits)

lemma run_fact_check_events:
  "\<exists>t. snd (run_fact_check e c u s) = snd (snd (fact_check e c u s)) @ [EditText t]"
  by (simp add: run_fact_check_def split: prod.splits fc_exit.splits outcome.splits py_exn.splits)

lemma gate_rejects:
  "now - last_request s u < RATE_LIMIT_SECONDS \<Longrightarrow>
   rate_limit_gate u now s = (False, s\<lparr>user_last_request := snd (defaultdict_get (user_last_request s) u)\<rparr>)"
  by (cases "defaultdict_get (user_last_request s) u") (simp add: rate_limit_gate_def last_request_def)

lemma gate_accepts:
  "\<not> now - last_request s u < RATE_LIMIT_SECONDS \<Longrightarrow>
   rate_limit_gate u now s = (True, s\<lparr>user_last_request := (user_last_request s)(u \<mapsto> now)\<rparr>)"
  by (auto simp add: rate_limit_gate_def last_request_def defaultdict_get_def split: prod.splits option.splits)

lemma last_request_Some: "user_last_request s u = Some t \<Longrightarrow> last_request s u = t"
  by (simp add: last_request_def defaultdict_get_def)

lemma last_request_None: "user_last_request s u = None \<Longrightarrow> last_request s u = 0"
  by (simp add: last_request_def defaultdict_get_def)

lemma defaultdict_get_Some: "d k = Some v \<Longrightarrow> defaultdict_get d k = (v, d)"
  by (simp add: defaultdict_get_def)

lemma handle_message_invalid:
  "claim_of upd = [] \<Longrightarrow> handle_message e upd now s = (s, [ReplyText INVALID_CLAIM])"
  by (simp add: handle_message_def)

lemma handle_message_too_long:
  "claim_of upd \<noteq> [] \<Longrightarrow> length (claim_of upd) > MAX_INPUT_LEN \<Longrightarrow>
   handle_message e upd now s = (s, [ReplyText TOO_LONG])"
  by (simp add: handle_message_def)

lemma handle_message_limited:
  "claim_of upd \<noteq> [] \<Longrightarrow> length (claim_of upd) \<le> MAX_INPUT_LEN \<Longrightarrow>
   now - last_request s (effective_user_id upd) < RATE_LIMIT_SECONDS \<Longrightarrow>
   handle_message e upd now s =
     (s\<lparr>user_last_request := snd (defaultdict_get (user_last_request s) (effective_user_id upd))\<rparr>,
      [ReplyText PLEASE_WAIT])"
  by (simp add: handle_message_def gate_rejects)

lemma handle_message_accepted:
  "claim_of upd \<noteq> [] \<Longrightarrow> length (claim_of upd) \<le> MAX_INPUT_LEN \<Longrightarrow>
   \<not> now - last_request s (effective_user_id upd) < RATE_LIMIT_SECONDS \<Longrightarrow>
   handle_message e upd now s =
     (fst (run_fact_check e (claim_of upd) (effective_user_id upd)
             (s\<lparr>user_last_request := (user_last_request s)(effective_user_id upd \<mapsto> now)\<rparr>)),
      [SendTyping, ReplyText THINKING] @
      snd (run_fact_check e (claim_of upd) (effective_user_id upd)
             (s\<lparr>user_last_request := (user_last_request s)(effective_user_id upd \<mapsto> now)\<rparr>)))"
  by (simp add: handle_message_def gate_accepts Let_def case_prod_beta)

subsection \<open>The worked examples\<close>

lemma strip_MOON: "strip MOON = MOON"
  unfolding MOON_def by (rule strip_id) (simp_all add: lit_def isspace_def)

lemma length_MOON: "length MOON = 26"
  by (simp add: MOON_def)

lemma claim_of_moon_update: "claim_of moon_update = MOON"
  by (simp add: claim_of_def moon_update_def strip_MOON)

lemma strip_MOON_padded: "strip (MOON @ lit '' '') = MOON"
  by (simp add: MOON_def strip_def lstrip_def rstrip_def lit_def isspace_def)

lemma claim_of_moon_update_padded: "claim_of moon_update_padded = MOON"
  by (simp add: claim_of_def moon_update_padded_def strip_MOON_padded)

lemma strip_moon_content:
  "strip (lit ''The moon is composed of rock and dust.'') = lit ''The moon is composed of rock and dust.''"
  by (rule strip_id) (simp_all add: lit_def isspace_def)

lemma moon_content_nonempty: "strip (lit ''The moon is composed of rock and dust.'') \<noteq> []"
  by (simp add: strip_moon_content) (simp add: lit_def)

lemma search_moon:
  "search_web tavily_moon q =
     (lit ''The moon is composed of rock and dust.'', [lit ''https://example.com/moon?a=1&b=2''])"
proof -
  have a: "assemble moon_response =
      ([lit ''The moon is composed of rock and dust.''], [lit ''https://example.com/moon?a=1&b=2''])"
    by (simp add: assemble_def moon_response_def strip_moon_content) (simp add: lit_def)
  show ?thesis
    by (simp add: search_web_returned [of tavily_moon q moon_response] tavily_moon_def a
        MAX_EVIDENCE_LEN_def)
qed

lemma strip_false: "strip (lit ''<b>Verdict:</b> False\<newline>'') = lit ''<b>Verdict:</b> False''"
  by (simp add: strip_def lstrip_def rstrip_def lit_def isspace_def)

lemma add_sources_moon:
  "add_sources (lit ''<b>Verdict:</b> False'') [lit ''https://example.com/moon?a=1&b=2''] = MOON_VERDICT"
proof -
  have "escape (lit ''https://example.com/moon?a=1&b=2'') = lit ''https://example.com/moon?a=1&amp;b=2''"
    by (simp add: escape_def escape_char_def lit_def)
  then show ?thesis
    by (simp add: add_sources_def source_lines_def MOON_VERDICT_def SOURCES_HEADER_def BULLET_def)
qed

lemma fact_check_moon:
  "fact_check env_moon MOON u initial_state =
     (Return MOON_VERDICT, moon_state,
      [SearchCall (search_request MOON),
       ModelCall (make_request MOON (lit ''The moon is composed of rock and dust.'') u)
         (Done (lit ''<b>Verdict:</b> False\<newline>''))])"
proof -
  have 1: "fact_cache initial_state MOON = None" by (simp add: initial_state_def)
  have 2: "search_web (tavily_search env_moon) MOON =
      (lit ''The moon is composed of rock and dust.'', [lit ''https://example.com/moon?a=1&b=2''])"
    by (simp add: env_moon_def search_moon)
  have 3: "openai_create env_moon (make_request MOON (lit ''The moon is composed of rock and dust.'') u)
      = Done (lit ''<b>Verdict:</b> False\<newline>'')"
    by (simp add: env_moon_def openai_false_def)
  show ?thesis
    by (simp add: fact_check_done [OF 1 2 moon_content_nonempty 3] strip_false add_sources_moon)
      (simp add: initial_state_def moon_state_def)
qed

lemma last_request_initial: "last_request initial_state u = 0"
  by (simp add: last_request_None initial_state_def)

lemma MOON_nonempty: "MOON \<noteq> []"
  by (simp add: MOON_def lit_def)

lemma fact_check_slow_moon:
  "fact_cache s MOON = None \<Longrightarrow>
   fact_check env_slow MOON u s =
     (CancelledError, s,
      [SearchCall (search_request MOON),
       ModelCall (make_request MOON (lit ''The moon is composed of rock and dust.'') u) Cancelled])"
proof -
  assume 1: "fact_cache s MOON = None"
  have 2: "search_web (tavily_search env_slow) MOON =
      (lit ''The moon is composed of rock and dust.'', [lit ''https://example.com/moon?a=1&b=2''])"
    by (simp add: env_slow_def search_moon)
  have 3: "openai_create env_slow (make_request MOON (lit ''The moon is composed of rock and dust.'') u)
      = Cancelled"
    by (simp add: env_slow_def openai_slow_def)
  show ?thesis by (rule fact_check_cancelled [OF 1 2 moon_content_nonempty 3])
qed

subsection \<open>Lines\<close>

lemma split_on_no_sep: "c \<notin> set x \<Longrightarrow> split_on c x = [x]"
  by (induction x) auto

lemma split_on_append: "c \<notin> set x \<Longrightarrow> split_on c (x @ c # rest) = x # split_on c rest"
  by (induction x) auto

lemma split_on_join:
  "items \<noteq> [] \<Longrightarrow> \<forall>i \<in> set items. c \<notin> set i \<Longrightarrow> split_on c (str_join [c] items) = items"
proof (induction "[c]" items rule: str_join.induct)
  case 1
  then show ?case by simp
next
  case (2 x)
  then show ?case by (simp add: split_on_no_sep)
next
  case (3 x y ys)
  then show ?case by (simp add: split_on_append)
qed

lemma escape_no_newline: "10 \<notin> set u \<Longrightarrow> 10 \<notin> set (escape u)"
  by (induction u) (auto simp add: escape_def escape_char_def lit_def)

lemma source_lines_no_newline:
  "\<forall>u \<in> set urls. 10 \<notin> set u \<Longrightarrow> \<forall>l \<in> set (source_lines urls). 10 \<notin> set l"
  by (auto simp add: source_lines_def BULLET_def escape_no_newline)

lemma lit_newline: "lit ''\<newline>'' = [10]"
  by (simp add: lit_def)

lemma search_answer_only: "search_web tavily_answer_only q = (lit ''Summary: Rock and dust.'', [])"
proof -
  have a: "assemble answer_only_response = ([lit ''Summary: Rock and dust.''], [])"
    by (simp add: assemble_def answer_only_response_def) (simp add: lit_def)
  show ?thesis
    by (simp add: search_web_returned [of tavily_answer_only q answer_only_response]
        tavily_answer_only_def a MAX_EVIDENCE_LEN_def)
qed

lemma search_url_only: "search_web tavily_url_only q = ([], [lit ''https://example.com/moon''])"
proof -
  have a: "assemble url_only_response = ([], [lit ''https://example.com/moon''])"
    by (simp add: assemble_def url_only_response_def) (simp add: lit_def)
  show ?thesis
    by (simp add: search_web_returned [of tavily_url_only q url_only_response]
        tavily_url_only_def a MAX_EVIDENCE_LEN_def)
qed

subsection \<open>The handler, by cases\<close>

lemma handle_message_cases:
  obtains
    (invalid) "claim_of upd = []" "handle_message e upd now s = (s, [ReplyText INVALID_CLAIM])"
  | (too_long) "claim_of upd \<noteq> []" "length (claim_of upd) > MAX_INPUT_LEN"
      "handle_message e upd now s = (s, [ReplyText TOO_LONG])"
  | (limited) d where "handle_message e upd now s = (s\<lparr>user_last_request := d\<rparr>, [ReplyText PLEASE_WAIT])"
  | (accepted) s1 t where "fact_cache s1 = fact_cache s"
      "handle_message e upd now s =
         (fst (snd (fact_check e (claim_of upd) (effective_user_id upd) s1)),
          [SendTyping, ReplyText THINKING] @
          snd (snd (fact_check e (claim_of upd) (effective_user_id upd) s1)) @ [EditText t])"
proof (cases "claim_of upd = []")
  case True
  then show ?thesis using invalid handle_message_invalid by blast
next
  case False
  note ne = this
  show ?thesis
  proof (cases "length (claim_of upd) > MAX_INPUT_LEN")
    case True
    with ne show ?thesis using too_long handle_message_too_long by blast
  next
    case False
    then have le: "length (claim_of upd) \<le> MAX_INPUT_LEN" by simp
    show ?thesis
    proof (cases "now - last_request s (effective_user_id upd) < RATE_LIMIT_SECONDS")
      case True
      from handle_message_limited [OF ne le True] show ?thesis using limited by blast
    next
      case False
      let ?s1 = "s\<lparr>user_last_request := (user_last_request s)(effective_user_id upd \<mapsto> now)\<rparr>"
      obtain t where t: "snd (run_fact_check e (claim_of upd) (effective_user_id upd) ?s1) =
          snd (snd (fact_check e (claim_of upd) (effective_user_id upd) ?s1)) @ [EditText t]"
        using run_fact_check_events by blast
      have "handle_message e upd now s =
         (fst (snd (fact_check e (claim_of upd) (effective_user_id upd) ?s1)),
          [SendTyping, ReplyText THINKING] @
          snd (snd (fact_check e (claim_of upd) (effective_user_id upd) ?s1)) @ [EditText t])"
        by (simp add: handle_message_accepted [OF ne le False] run_fact_check_state t)
      moreover have "fact_cache ?s1 = fact_cache s" by simp
      ultimately show ?thesis using accepted by blast
    qed
  qed
qed

lemma run_fact_check_returned:
  "fact_check e c u s = (Return r, s', evs) \<Longrightarrow> telegram_edit e r = Returned x \<Longrightarrow>
   run_fact_check e c u s = (s', evs @ [EditText r])"
  by (simp add: run_fact_check_def)

lemma fact_check_search_query:
  "SearchCall rq \<in> set (snd (snd (fact_check e c u s))) \<Longrightarrow> rq = search_request c"
  by (rule fact_check_cases [where s=s and c=c and e=e and u=u]) auto

lemma fact_check_moon_miss:
  "fact_cache s MOON = None \<Longrightarrow>
   fact_check env_moon MOON u s =
     (Return MOON_VERDICT, s\<lparr>fact_cache := (fact_cache s)(MOON \<mapsto> MOON_VERDICT)\<rparr>,
      [SearchCall (search_request MOON),
       ModelCall (make_request MOON (lit ''The moon is composed of rock and dust.'') u)
         (Done (lit ''<b>Verdict:</b> False\<newline>''))])"
proof -
  assume 1: "fact_cache s MOON = None"
  have 2: "search_web (tavily_search env_moon) MOON =
      (lit ''The moon is composed of rock and dust.'', [lit ''https://example.com/moon?a=1&b=2''])"
    by (simp add: env_moon_def search_moon)
  have 3: "openai_create env_moon (make_request MOON (lit ''The moon is composed of rock and dust.'') u)
      = Done (lit ''<b>Verdict:</b> False\<newline>'')"
    by (simp add: env_moon_def openai_false_def)
  show ?thesis
    by (simp add: fact_check_done [OF 1 2 moon_content_nonempty 3] strip_false add_sources_moon)
qed

lemma handle_message_moon:
  "handle_message env_moon moon_update 100 initial_state =
     (\<lparr>user_last_request = [7 \<mapsto> 100], fact_cache = [MOON \<mapsto> MOON_VERDICT]\<rparr>,
      [SendTyping, ReplyText THINKING, SearchCall (search_request MOON),
       ModelCall (make_request MOON (lit ''The moon is composed of rock and dust.'') 7)
         (Done (lit ''<b>Verdict:</b> False\<newline>'')),
       EditText MOON_VERDICT])"
proof -
  have v1: "claim_of moon_update \<noteq> []" by (simp add: claim_of_moon_update MOON_nonempty)
  have v2: "length (claim_of moon_update) \<le> MAX_INPUT_LEN"
    by (simp add: claim_of_moon_update length_MOON MAX_INPUT_LEN_def)
  have v3: "\<not> 100 - last_request initial_state (effective_user_id moon_update) < RATE_LIMIT_SECONDS"
    by (simp add: last_request_initial RATE_LIMIT_SECONDS_def)
  have u: "effective_user_id moon_update = 7" by (simp add: moon_update_def)
  have c: "fact_cache (initial_state\<lparr>user_last_request := (user_last_request initial_state)(7 \<mapsto> 100)\<rparr>) MOON = None"
    by (simp add: initial_state_def)
  have ed: "telegram_edit env_moon MOON_VERDICT = Returned ()"
    by (simp add: env_moon_def edit_ok_def)
  note r = run_fact_check_returned [OF fact_check_moon_miss [OF c, of 7] ed]
  show ?thesis
    by (simp add: handle_message_accepted [OF v1 v2 v3] u claim_of_moon_update r)
      (simp add: initial_state_def)
qed

subsection \<open>What the cache can hold\<close>

lemma isspace_32: "isspace 32"
  by (simp add: isspace_def)

lemma add_sources_no_leading_space:
  "add_sources (strip out) urls = [] \<or> hd (add_sources (strip out) urls) \<noteq> 32"
proof (cases "strip out = []")
  case True
  then show ?thesis by (simp add: add_sources_def SOURCES_HEADER_def lit_def)
next
  case False
  then have "hd (strip out) \<noteq> 32" using hd_strip isspace_32 by metis
  with False show ?thesis by (simp add: add_sources_def)
qed

lemma add_sources_eq_AI_FAILED: "add_sources b urls = AI_FAILED \<Longrightarrow> b = AI_FAILED"
proof (cases "urls = []")
  case True
  assume "add_sources b urls = AI_FAILED"
  with True show ?thesis by (simp add: add_sources_def)
next
  case False
  assume a: "add_sources b urls = AI_FAILED"
  from False have "10 \<in> set (add_sources b urls)"
    by (simp add: add_sources_def SOURCES_HEADER_def lit_def)
  moreover have "10 \<notin> set AI_FAILED" by (simp add: AI_FAILED_def lit_def)
  ultimately show ?thesis using a by simp
qed

lemma fact_check_cache_step:
  assumes "fact_cache (fst (snd (fact_check e c u s))) k = Some v"
  shows "fact_cache s k = Some v \<or>
         (k = c \<and> (\<exists>evidence out urls.
            ModelCall (make_request c evidence u) (Done out) \<in> set (snd (snd (fact_check e c u s)))
            \<and> v = add_sources (strip out) urls))"
  by (rule fact_check_cases [where s=s and c=c and e=e and u=u])
    (use assms in \<open>auto split: if_splits\<close>)

lemma handle_message_cache_step:
  assumes "fact_cache (fst (handle_message e upd now s)) k = Some v"
  shows "fact_cache s k = Some v \<or>
         (k = claim_of upd \<and> (\<exists>evidence out urls.
            ModelCall (make_request (claim_of upd) evidence (effective_user_id upd)) (Done out)
              \<in> set (snd (handle_message e upd now s))
            \<and> v = add_sources (strip out) urls))"
proof (rule handle_message_cases [where upd=upd and e=e and now=now and s=s])
  assume "handle_message e upd now s = (s, [ReplyText INVALID_CLAIM])"
  with assms show ?thesis by simp
next
  assume "handle_message e upd now s = (s, [ReplyText TOO_LONG])"
  with assms show ?thesis by simp
next
  fix d assume "handle_message e upd now s = (s\<lparr>user_last_request := d\<rparr>, [ReplyText PLEASE_WAIT])"
  with assms show ?thesis by simp
next
  fix s1 t
  assume c: "fact_cache s1 = fact_cache s"
    and h: "handle_message e upd now s =
         (fst (snd (fact_check e (claim_of upd) (effective_user_id upd) s1)),
          [SendTyping, ReplyText THINKING] @
          snd (snd (fact_check e (claim_of upd) (effective_user_id upd) s1)) @ [EditText t])"
  from assms h have "fact_cache (fst (snd (fact_check e (claim_of upd) (effective_user_id upd) s1))) k = Some v"
    by simp
  from fact_check_cache_step [OF this] c h show ?thesis by auto
qed

lemma cache_provenance:
  "reachable s hist \<Longrightarrow> fact_cache s c = Some v \<Longrightarrow>
   \<exists>evidence uid out urls.
     ModelCall (make_request c evidence uid) (Done out) \<in> set hist \<and> v = add_sources (strip out) urls"
proof (induction arbitrary: c v rule: reachable.induct)
  case start
  then show ?case by (simp add: initial_state_def)
next
  case (message s hist e upd now s' evs)
  from message.hyps(2) message.prems
  have "fact_cache (fst (handle_message e upd now s)) c = Some v" by simp
  from handle_message_cache_step [OF this] show ?case
  proof
    assume "fact_cache s c = Some v"
    from message.IH [OF this] show ?thesis by auto
  next
    assume "c = claim_of upd \<and> (\<exists>evidence out urls.
            ModelCall (make_request (claim_of upd) evidence (effective_user_id upd)) (Done out)
              \<in> set (snd (handle_message e upd now s))
            \<and> v = add_sources (strip out) urls)"
    with message.hyps(2) show ?thesis by auto
  qed
next
  case (check s hist e claim user_id x s' evs)
  from check.hyps(2) check.prems
  have "fact_cache (fst (snd (fact_check e claim user_id s))) c = Some v" by simp
  from fact_check_cache_step [OF this] show ?case
  proof
    assume "fact_cache s c = Some v"
    from check.IH [OF this] show ?thesis by auto
  next
    assume "c = claim \<and> (\<exists>evidence out urls.
            ModelCall (make_request claim evidence user_id) (Done out)
              \<in> set (snd (snd (fact_check e claim user_id s)))
            \<and> v = add_sources (strip out) urls)"
    with check.hyps(2) show ?thesis by auto
  qed
qed

lemma handle_message_cache_changes:
  "fact_cache (fst (handle_message e upd now s)) \<noteq> fact_cache s \<Longrightarrow>
   \<exists>rq out. ModelCall rq (Done out) \<in> set (snd (handle_message e upd now s))"
proof (rule handle_message_cases [where upd=upd and e=e and now=now and s=s])
  fix s1 t
  assume a: "fact_cache (fst (handle_message e upd now s)) \<noteq> fact_cache s"
    and c: "fact_cache s1 = fact_cache s"
    and h: "handle_message e upd now s =
         (fst (snd (fact_check e (claim_of upd) (effective_user_id upd) s1)),
          [SendTyping, ReplyText THINKING] @
          snd (snd (fact_check e (claim_of upd) (effective_user_id upd) s1)) @ [EditText t])"
  from a c h have n: "fact_cache (fst (snd (fact_check e (claim_of upd) (effective_user_id upd) s1))) \<noteq> fact_cache s1"
    by simp
  have "\<exists>rq out. ModelCall rq (Done out) \<in> set (snd (snd (fact_check e (claim_of upd) (effective_user_id upd) s1)))"
    by (rule fact_check_cases [where s=s1 and c="claim_of upd" and e=e and u="effective_user_id upd"])
      (use n in auto)
  with h show ?thesis by auto
qed auto

subsection \<open>Further worked examples\<close>

lemma fact_check_env_moon:
  "fact_cache s c = None \<Longrightarrow>
   fact_check env_moon c u s =
     (Return MOON_VERDICT, s\<lparr>fact_cache := (fact_cache s)(c \<mapsto> MOON_VERDICT)\<rparr>,
      [SearchCall (search_request c),
       ModelCall (make_request c (lit ''The moon is composed of rock and dust.'') u)
         (Done (lit ''<b>Verdict:</b> False\<newline>''))])"
proof -
  assume 1: "fact_cache s c = None"
  have 2: "search_web (tavily_search env_moon) c =
      (lit ''The moon is composed of rock and dust.'', [lit ''https://example.com/moon?a=1&b=2''])"
    by (simp add: env_moon_def search_moon)
  have 3: "openai_create env_moon (make_request c (lit ''The moon is composed of rock and dust.'') u)
      = Done (lit ''<b>Verdict:</b> False\<newline>'')"
    by (simp add: env_moon_def openai_false_def)
  show ?thesis
    by (simp add: fact_check_done [OF 1 2 moon_content_nonempty 3] strip_false add_sources_moon)
qed

lemma strip_AI_FAILED: "strip AI_FAILED = AI_FAILED"
  unfolding AI_FAILED_def by (rule strip_id) (simp_all add: lit_def isspace_def)

lemma summary_nonblank: "strip (lit ''Summary: Rock and dust.'') \<noteq> []"
  by (simp add: strip_eq_Nil_iff lit_def isspace_def)

lemma fact_check_env_parrot:
  "fact_cache s c = None \<Longrightarrow>
   fact_check env_parrot c u s =
     (Return AI_FAILED, s\<lparr>fact_cache := (fact_cache s)(c \<mapsto> AI_FAILED)\<rparr>,
      [SearchCall (search_request c),
       ModelCall (make_request c (lit ''Summary: Rock and dust.'') u) (Done AI_FAILED)])"
proof -
  assume 1: "fact_cache s c = None"
  have 2: "search_web (tavily_search env_parrot) c = (lit ''Summary: Rock and dust.'', [])"
    by (simp add: env_parrot_def search_answer_only)
  have 3: "openai_create env_parrot (make_request c (lit ''Summary: Rock and dust.'') u) = Done AI_FAILED"
    by (simp add: env_parrot_def openai_parrot_def AI_FAILED_def)
  show ?thesis
    by (simp add: fact_check_done [OF 1 2 summary_nonblank 3] strip_AI_FAILED add_sources_def)
qed

lemma fact_check_env_empty:
  "fact_cache s c = None \<Longrightarrow>
   fact_check env_empty c u s =
     (Return [], s\<lparr>fact_cache := (fact_cache s)(c \<mapsto> [])\<rparr>,
      [SearchCall (search_request c),
       ModelCall (make_request c (lit ''Summary: Rock and dust.'') u) (Done [])])"
proof -
  assume 1: "fact_cache s c = None"
  have 2: "search_web (tavily_search env_empty) c = (lit ''Summary: Rock and dust.'', [])"
    by (simp add: env_empty_def search_answer_only)
  have 3: "openai_create env_empty (make_request c (lit ''Summary: Rock and dust.'') u) = Done []"
    by (simp add: env_empty_def openai_empty_def)
  show ?thesis
    by (simp add: fact_check_done [OF 1 2 summary_nonblank 3] add_sources_def)
qed

lemma moon_update_accepted:
  "handle_message e moon_update 100 initial_state =
     (fst (run_fact_check e MOON 7
             (initial_state\<lparr>user_last_request := (user_last_request initial_state)(7 \<mapsto> 100)\<rparr>)),
      [SendTyping, ReplyText THINKING] @
      snd (run_fact_check e MOON 7
             (initial_state\<lparr>user_last_request := (user_last_request initial_state)(7 \<mapsto> 100)\<rparr>)))"
proof -
  have v1: "claim_of moon_update \<noteq> []" by (simp add: claim_of_moon_update MOON_nonempty)
  have v2: "length (claim_of moon_update) \<le> MAX_INPUT_LEN"
    by (simp add: claim_of_moon_update length_MOON MAX_INPUT_LEN_def)
  have v3: "\<not> 100 - last_request initial_state (effective_user_id moon_update) < RATE_LIMIT_SECONDS"
    by (simp add: last_request_initial RATE_LIMIT_SECONDS_def)
  have u: "effective_user_id moon_update = 7" by (simp add: moon_update_def)
  show ?thesis
    by (simp add: handle_message_accepted [OF v1 v2 v3] u claim_of_moon_update)
qed

lemma handle_message_parrot:
  "fact_cache (fst (handle_message env_parrot moon_update 100 initial_state)) MOON = Some AI_FAILED"
proof -
  have c: "fact_cache (initial_state\<lparr>user_last_request := (user_last_request initial_state)(7 \<mapsto> 100)\<rparr>) MOON = None"
    by (simp add: initial_state_def)
  have ed: "telegram_edit env_parrot AI_FAILED = Returned ()"
    by (simp add: env_parrot_def edit_ok_def)
  note r = run_fact_check_returned [OF fact_check_env_parrot [OF c, of 7] ed]
  show ?thesis by (simp add: moon_update_accepted r)
qed

lemma handle_message_empty:
  "fact_cache (fst (handle_message env_empty moon_update 100 initial_state)) MOON = Some []"
proof -
  have c: "fact_cache (initial_state\<lparr>user_last_request := (user_last_request initial_state)(7 \<mapsto> 100)\<rparr>) MOON = None"
    by (simp add: initial_state_def)
  have ed: "telegram_edit env_empty [] = Returned ()"
    by (simp add: env_empty_def edit_ok_def)
  note r = run_fact_check_returned [OF fact_check_env_empty [OF c, of 7] ed]
  show ?thesis by (simp add: moon_update_accepted r)
qed

lemma claim_of_padded_long_update: "claim_of padded_long_update = replicate 500 97"
proof -
  have l: "lstrip (replicate 500 97 @ lit '' '') = replicate 500 97 @ lit '' ''"
    unfolding lstrip_def by (rule dropWhile_id) (simp_all add: isspace_def hd_append)
  have "dropWhile isspace (replicate 500 97) = replicate 500 97"
    by (rule dropWhile_id) (simp_all add: isspace_def)
  then have r: "rstrip (replicate 500 97 @ lit '' '') = replicate 500 97"
    by (simp add: rstrip_def lit_def isspace_def)
  show ?thesis by (simp add: claim_of_def padded_long_update_def strip_def l r)
qed

lemma handle_message_padded_long:
  "handle_message env_moon padded_long_update 100 initial_state =
     (\<lparr>user_last_request = [7 \<mapsto> 100], fact_cache = [replicate 500 97 \<mapsto> MOON_VERDICT]\<rparr>,
      [SendTyping, ReplyText THINKING, SearchCall (search_request (replicate 500 97)),
       ModelCall (make_request (replicate 500 97) (lit ''The moon is composed of rock and dust.'') 7)
         (Done (lit ''<b>Verdict:</b> False\<newline>'')),
       EditText MOON_VERDICT])"
proof -
  have v1: "claim_of padded_long_update \<noteq> []" by (simp add: claim_of_padded_long_update)
  have v2: "length (claim_of padded_long_update) \<le> MAX_INPUT_LEN"
    by (simp add: claim_of_padded_long_update MAX_INPUT_LEN_def)
  have v3: "\<not> 100 - last_request initial_state (effective_user_id padded_long_update) < RATE_LIMIT_SECONDS"
    by (simp add: last_request_initial RATE_LIMIT_SECONDS_def)
  have u: "effective_user_id padded_long_update = 7" by (simp add: padded_long_update_def)
  have c: "fact_cache (initial_state\<lparr>user_last_request := (user_last_request initial_state)(7 \<mapsto> 100)\<rparr>)
      (replicate 500 97) = None"
    by (simp add: initial_state_def)
  have ed: "telegram_edit env_moon MOON_VERDICT = Returned ()"
    by (simp add: env_moon_def edit_ok_def)
  note r = run_fact_check_returned [OF fact_check_env_moon [OF c, of 7] ed]
  show ?thesis
    by (simp add: handle_message_accepted [OF v1 v2 v3] u claim_of_padded_long_update r)
      (simp add: initial_state_def)
qed

lemma search_linefeed:
  "search_web tavily_linefeed q =
     (lit ''The moon is composed of rock and dust.'', [lit ''https://example.com/a\<newline>b''])"
proof -
  have a: "assemble linefeed_response =
      ([lit ''The moon is composed of rock and dust.''], [lit ''https://example.com/a\<newline>b''])"
    by (simp add: assemble_def linefeed_response_def strip_moon_content) (simp add: lit_def)
  show ?thesis
    by (simp add: search_web_returned [of tavily_linefeed q linefeed_response] tavily_linefeed_def a
        MAX_EVIDENCE_LEN_def)
qed

lemma fact_check_env_linefeed:
  "fact_cache s c = None \<Longrightarrow>
   fst (fact_check env_linefeed c u s) =
     Return (lit ''<b>Verdict:</b> False'' @ SOURCES_HEADER @ BULLET @ lit ''https://example.com/a\<newline>b'')"
proof -
  assume 1: "fact_cache s c = None"
  have 2: "search_web (tavily_search env_linefeed) c =
      (lit ''The moon is composed of rock and dust.'', [lit ''https://example.com/a\<newline>b''])"
    by (simp add: env_linefeed_def search_linefeed)
  have 3: "openai_create env_linefeed (make_request c (lit ''The moon is composed of rock and dust.'') u)
      = Done (lit ''<b>Verdict:</b> False\<newline>'')"
    by (simp add: env_linefeed_def openai_false_def)
  have e: "escape (lit ''https://example.com/a\<newline>b'') = lit ''https://example.com/a\<newline>b''"
    by (simp add: escape_def escape_char_def lit_def)
  show ?thesis
    by (simp add: fact_check_done [OF 1 2 moon_content_nonempty 3] strip_false add_sources_def
        source_lines_def e)
qed

lemma split_linefeed_line:
  "split_on 10 (BULLET @ lit ''https://example.com/a\<newline>b'') =
     [BULLET @ lit ''https://example.com/a'', lit ''b'']"
  by (simp add: BULLET_def lit_def)

section \<open>The evidence retriever\<close>

text \<open>
  Claim C3. When the search provider returns a response whose segments, joined by the
  separator, are longer than the cap of 6000 characters, the evidence text that
  \<open>search_web\<close> returns is the first 6000 characters of the joined string followed by
  the truncation marker: its length is 6000 plus the length of the marker (6016), it
  ends with the marker, and the cut is made in the joined string, not in the segments.
  The segments are the summary, when there is a non-empty answer, and then the stripped
  content of each result that has non-empty content, in the order of the results.
\<close>

theorem evidence_cap:
  assumes "t (search_request q) = Returned response"
    and "length (str_join SEPARATOR (fst (assemble response))) > MAX_EVIDENCE_LEN"
  shows "fst (search_web t q) =
           take 6000 (str_join (lit ''\<newline>\<newline>---\<newline>\<newline>'') (fst (assemble response)))
             @ lit ''\<newline>... [truncated]''
       \<and> fst (assemble response) =
           (case resp_answer response of
              Some a \<Rightarrow> if a \<noteq> [] then [lit ''Summary: '' @ a] else []
            | None \<Rightarrow> [])
           @ [strip c. r \<leftarrow> (case resp_results response of Some rs \<Rightarrow> rs | None \<Rightarrow> []),
                Some c \<leftarrow> [r_content r], c \<noteq> []]
       \<and> length (fst (search_web t q)) = 6000 + length (lit ''\<newline>... [truncated]'')
       \<and> length (fst (search_web t q)) = 6016
       \<and> suffix (lit ''\<newline>... [truncated]'') (fst (search_web t q))"
proof -
  have "fst (assemble response) =
           (case resp_answer response of
              Some a \<Rightarrow> if a \<noteq> [] then [lit ''Summary: '' @ a] else []
            | None \<Rightarrow> [])
           @ [strip c. r \<leftarrow> (case resp_results response of Some rs \<Rightarrow> rs | None \<Rightarrow> []),
                Some c \<leftarrow> [r_content r], c \<noteq> []]"
    by (simp add: assemble_eq)
  moreover from assms have "fst (search_web t q) =
           take 6000 (str_join (lit ''\<newline>\<newline>---\<newline>\<newline>'') (fst (assemble response)))
             @ lit ''\<newline>... [truncated]''"
    by (simp add: search_web_returned Let_def MAX_EVIDENCE_LEN_def TRUNCATION_MARKER_def
        SEPARATOR_def)
  moreover from assms have "length (fst (search_web t q)) = 6016"
    by (simp add: search_web_returned Let_def MAX_EVIDENCE_LEN_def TRUNCATION_MARKER_def)
  moreover from assms have "suffix (lit ''\<newline>... [truncated]'') (fst (search_web t q))"
    by (simp add: search_web_returned Let_def MAX_EVIDENCE_LEN_def TRUNCATION_MARKER_def
        suffix_def)
  ultimately show ?thesis by simp
qed

theorem evidence_cap_witness:
  "tavily_long (search_request MOON) = Returned long_response
   \<and> length (str_join SEPARATOR (fst (assemble long_response))) = 6116
   \<and> length (fst (search_web tavily_long MOON)) = 6016
   \<and> suffix (lit ''\<newline>... [truncated]'') (fst (search_web tavily_long MOON))"
proof -
  have s: "strip (replicate 3100 98) = replicate 3100 98"
    by (rule strip_id) (simp_all add: isspace_def)
  have a: "fst (assemble long_response) = [lit ''Summary: '' @ replicate 3000 97, replicate 3100 98]"
    by (simp add: assemble_def long_response_def s)
  have r: "tavily_long (search_request MOON) = Returned long_response"
    by (simp add: tavily_long_def)
  have l: "length (str_join SEPARATOR (fst (assemble long_response))) = 6116"
    by (simp add: a SEPARATOR_def)
  from l have g: "length (str_join SEPARATOR (fst (assemble long_response))) > MAX_EVIDENCE_LEN"
    by (simp add: MAX_EVIDENCE_LEN_def)
  have "length (fst (search_web tavily_long MOON)) = 6016
      \<and> suffix (lit ''\<newline>... [truncated]'') (fst (search_web tavily_long MOON))"
    using evidence_cap [of tavily_long MOON long_response, OF r g] by blast
  with r l show ?thesis by blast
qed

text \<open>
  Claim C4. Whatever the search provider does, \<open>search_web\<close> returns a pair and does
  not raise: when the provider raises an exception, and whenever an exception leaves the
  \<open>try\<close> block, the result is the empty bundle, the empty text with the empty list of
  URLs; otherwise it is the bundle that the \<open>try\<close> block returns.
\<close>

theorem search_web_never_raises:
  "(\<forall>x. t (search_request q) = Raised x \<longrightarrow> search_web t q = ([], []))
   \<and> (\<forall>x. search_web_try t q = Inl x \<longrightarrow> search_web t q = ([], []))
   \<and> (\<forall>bundle. search_web_try t q = Inr bundle \<longrightarrow> search_web t q = bundle)"
  by (simp add: search_web_def search_web_try_def)

theorem search_web_never_raises_witness:
  "tavily_down (search_request MOON) = Raised (PyException (lit ''network error''))
   \<and> search_web_try tavily_down MOON = Inl (PyException (lit ''network error''))
   \<and> search_web tavily_down MOON = ([], [])"
  using search_web_never_raises [of tavily_down MOON]
  by (simp add: tavily_down_def search_web_try_def)

section \<open>The orchestrator\<close>

text \<open>
  Claim C2. When the claim is not in the cache and the evidence text that \<open>search_web\<close>
  returns for it is empty or consists of whitespace only, \<open>fact_check\<close> returns the fixed
  verdict with the label \<open>Insufficient Evidence\<close>, the confidence \<open>0%\<close> and the canned
  explanation; its only external effect is the search call, so the model provider is not
  invoked, and the state is unchanged.
\<close>

theorem insufficient_evidence_short_circuit:
  assumes "fact_cache s claim = None"
    and "\<forall>c \<in> set (fst (search_web (tavily_search e) claim)). isspace c"
  shows "fact_check e claim uid s =
           (Return (lit (''<b>Verdict:</b> Insufficient Evidence\<newline>'' @
                         ''<b>Confidence:</b> 0%\<newline>'' @
                         ''<b>Explanation:</b> No reliable sources found.'')),
            s, [SearchCall (search_request claim)])
       \<and> (\<forall>rq r. ModelCall rq r \<notin> set (snd (snd (fact_check e claim uid s))))"
proof -
  from assms(2) have "strip (fst (search_web (tavily_search e) claim)) = []"
    by (simp add: strip_eq_Nil_iff)
  from fact_check_blank [OF assms(1) this] show ?thesis
    by (simp add: INSUFFICIENT_EVIDENCE_def)
qed

theorem insufficient_evidence_short_circuit_witness:
  "fact_cache initial_state MOON = None
   \<and> fst (search_web (tavily_search env_offline) MOON) = []
   \<and> fact_check env_offline MOON 7 initial_state =
       (Return INSUFFICIENT_EVIDENCE, initial_state, [SearchCall (search_request MOON)])"
proof -
  have c: "fact_cache initial_state MOON = None" by (simp add: initial_state_def)
  have b: "fst (search_web (tavily_search env_offline) MOON) = []"
    by (simp add: env_offline_def tavily_down_def search_web_raised)
  then have w: "\<forall>c \<in> set (fst (search_web (tavily_search env_offline) MOON)). isspace c"
    by simp
  show ?thesis
    using insufficient_evidence_short_circuit [OF c w, of 7] c b
    by (simp add: INSUFFICIENT_EVIDENCE_def)
qed

section \<open>The cache\<close>

text \<open>
  Claim C1, as amended. A second call of \<open>fact_check\<close> with the same claim string returns
  the result of the first call, leaves the state as it is and has no external effect
  (neither the search provider nor the model provider is invoked) whenever the first call
  was itself served from the cache or completed the success path: the evidence was not
  blank and the model provider returned a response. This holds whatever the providers
  would do during the second call and for any user.
\<close>

theorem cached_claim_is_served_from_cache:
  assumes "fact_check e1 claim uid1 s = (r1, s1, evs1)"
    and "fact_cache s claim \<noteq> None \<or>
         (strip (fst (search_web (tavily_search e1) claim)) \<noteq> [] \<and>
          (\<exists>out. openai_create e1 (make_request claim (fst (search_web (tavily_search e1) claim)) uid1)
                    = Done out))"
  shows "fact_check e2 claim uid2 s1 = (r1, s1, [])"
proof (cases "fact_cache s claim")
  case (Some v)
  with assms(1) have "r1 = Return v" "s1 = s" by (simp_all add: fact_check_hit)
  with Some show ?thesis by (simp add: fact_check_hit)
next
  case None
  with assms(2) obtain out where
    nb: "strip (fst (search_web (tavily_search e1) claim)) \<noteq> []" and
    d: "openai_create e1 (make_request claim (fst (search_web (tavily_search e1) claim)) uid1) = Done out"
    by auto
  obtain evidence urls where sw: "search_web (tavily_search e1) claim = (evidence, urls)"
    by (cases "search_web (tavily_search e1) claim")
  from nb d sw have "strip evidence \<noteq> []" "openai_create e1 (make_request claim evidence uid1) = Done out"
    by simp_all
  from fact_check_done [OF None sw this] assms(1)
  have "r1 = Return (add_sources (strip out) urls)"
    "s1 = s\<lparr>fact_cache := (fact_cache s)(claim \<mapsto> add_sources (strip out) urls)\<rparr>"
    by simp_all
  then show ?thesis by (simp add: fact_check_hit)
qed

theorem cached_claim_is_served_from_cache_witness:
  "fact_check env_moon MOON 7 initial_state =
     (Return MOON_VERDICT, moon_state,
      [SearchCall (search_request MOON),
       ModelCall (make_request MOON (lit ''The moon is composed of rock and dust.'') 7)
         (Done (lit ''<b>Verdict:</b> False\<newline>''))])
   \<and> strip (fst (search_web (tavily_search env_moon) MOON)) \<noteq> []
   \<and> openai_create env_moon (make_request MOON (fst (search_web (tavily_search env_moon) MOON)) 7)
       = Done (lit ''<b>Verdict:</b> False\<newline>'')
   \<and> fact_check env_offline MOON 8 moon_state = (Return MOON_VERDICT, moon_state, [])"
proof -
  have nb: "strip (fst (search_web (tavily_search env_moon) MOON)) \<noteq> []"
    by (simp add: env_moon_def search_moon moon_content_nonempty)
  have d: "openai_create env_moon (make_request MOON (fst (search_web (tavily_search env_moon) MOON)) 7)
      = Done (lit ''<b>Verdict:</b> False\<newline>'')"
    by (simp add: env_moon_def openai_false_def)
  from nb d have h: "fact_cache initial_state MOON \<noteq> None \<or>
         (strip (fst (search_web (tavily_search env_moon) MOON)) \<noteq> [] \<and>
          (\<exists>out. openai_create env_moon (make_request MOON (fst (search_web (tavily_search env_moon) MOON)) 7)
                    = Done out))"
    by blast
  have "fact_check env_offline MOON 8 moon_state = (Return MOON_VERDICT, moon_state, [])"
    by (rule cached_claim_is_served_from_cache [OF fact_check_moon h])
  with nb d fact_check_moon [of 7] show ?thesis by blast
qed

text \<open>
  Claim C1 as worded also covers the insufficient-evidence branch. That branch returns
  before the cache is written: with a search provider that fails, the first call returns
  the fixed verdict and leaves the cache empty, and the second call invokes the search
  provider again.
\<close>

theorem uncached_outcome_is_recomputed:
  "fact_check env_offline MOON 7 initial_state =
     (Return INSUFFICIENT_EVIDENCE, initial_state, [SearchCall (search_request MOON)])
   \<and> fact_check env_offline MOON 7 (fst (snd (fact_check env_offline MOON 7 initial_state))) =
     (Return INSUFFICIENT_EVIDENCE, initial_state, [SearchCall (search_request MOON)])
   \<and> snd (snd (fact_check env_offline MOON 7 (fst (snd (fact_check env_offline MOON 7 initial_state)))))
       \<noteq> []"
proof -
  have c: "fact_cache initial_state MOON = None" by (simp add: initial_state_def)
  have b: "strip (fst (search_web (tavily_search env_offline) MOON)) = []"
    by (simp add: env_offline_def tavily_down_def search_web_raised)
  show ?thesis by (simp add: fact_check_blank [OF c b])
qed

section \<open>Input validation\<close>

text \<open>
  Claim C9, as amended. A message whose text, after trimming, is empty or longer than 500
  characters is answered with one rejection message and nothing else happens: the state
  that the handler returns is the state it was given (the rate-limit dictionary is not
  even read, so no entry is inserted, and the cache is untouched), and the only external
  effect is the reply, so neither provider is invoked. The outcome does not depend on the
  clock or on the providers.
\<close>

theorem invalid_message_rejected:
  "(claim_of upd = [] \<longrightarrow>
      handle_message e upd now s = (s, [ReplyText (lit ''Please send a valid claim.'')]))
   \<and> (claim_of upd \<noteq> [] \<and> length (claim_of upd) > 500 \<longrightarrow>
      handle_message e upd now s = (s, [ReplyText (lit ''Message too long (max 500 characters).'')]))"
proof -
  have "TOO_LONG = lit ''Message too long (max 500 characters).''"
    by (simp add: TOO_LONG_def MAX_INPUT_LEN_def str_int_def lit_def)
  then show ?thesis
    by (simp add: handle_message_invalid handle_message_too_long INVALID_CLAIM_def MAX_INPUT_LEN_def)
qed

theorem invalid_message_rejected_witness:
  "claim_of blank_update = []
   \<and> handle_message env_moon blank_update 100 moon_state = (moon_state, [ReplyText INVALID_CLAIM])
   \<and> claim_of long_update \<noteq> [] \<and> length (claim_of long_update) = 501
   \<and> handle_message env_moon long_update 100 moon_state =
       (moon_state, [ReplyText (lit ''Message too long (max 500 characters).'')])"
proof -
  have b: "claim_of blank_update = []"
    by (simp add: claim_of_def blank_update_def strip_eq_Nil_iff lit_def isspace_def)
  have "strip (replicate 501 97) = replicate 501 97"
    by (rule strip_id) (simp_all add: isspace_def)
  then have l: "claim_of long_update = replicate 501 97"
    by (simp add: claim_of_def long_update_def)
  then have l2: "claim_of long_update \<noteq> [] \<and> length (claim_of long_update) > 500" by simp
  from invalid_message_rejected [of blank_update env_moon 100 moon_state] b
  have 1: "handle_message env_moon blank_update 100 moon_state = (moon_state, [ReplyText INVALID_CLAIM])"
    by (simp add: INVALID_CLAIM_def)
  from invalid_message_rejected [of long_update env_moon 100 moon_state] l2
  have 2: "handle_message env_moon long_update 100 moon_state =
       (moon_state, [ReplyText (lit ''Message too long (max 500 characters).'')])"
    by blast
  from b l 1 2 show ?thesis by simp
qed

text \<open>
  Claim C9 as worded rejects every message whose text is longer than 500 characters. The
  length is taken after trimming: a text of 500 letters followed by a space has 501
  characters, its trimmed text has 500, and the handler accepts it, records the time of
  the request for the user and runs the search and the model call.
\<close>

theorem padded_long_message_accepted:
  "message_text padded_long_update = Some (replicate 500 97 @ lit '' '')
   \<and> length (replicate 500 97 @ lit '' '') = 501
   \<and> snd (handle_message env_moon padded_long_update 100 initial_state) =
       [SendTyping, ReplyText THINKING, SearchCall (search_request (replicate 500 97)),
        ModelCall (make_request (replicate 500 97) (lit ''The moon is composed of rock and dust.'') 7)
          (Done (lit ''<b>Verdict:</b> False\<newline>'')),
        EditText MOON_VERDICT]
   \<and> user_last_request (fst (handle_message env_moon padded_long_update 100 initial_state)) 7
       = Some 100"
proof -
  have t: "message_text padded_long_update = Some (replicate 500 97 @ lit '' '')"
    by (simp add: padded_long_update_def)
  have l: "length (replicate 500 97 @ lit '' '') = 501" by simp
  have e: "snd (handle_message env_moon padded_long_update 100 initial_state) =
       [SendTyping, ReplyText THINKING, SearchCall (search_request (replicate 500 97)),
        ModelCall (make_request (replicate 500 97) (lit ''The moon is composed of rock and dust.'') 7)
          (Done (lit ''<b>Verdict:</b> False\<newline>'')),
        EditText MOON_VERDICT]"
    by (simp add: handle_message_padded_long)
  have u: "user_last_request (fst (handle_message env_moon padded_long_update 100 initial_state)) 7
       = Some 100"
    by (simp add: handle_message_padded_long)
  from t l e u show ?thesis by blast
qed

section \<open>The rate limiter\<close>

text \<open>
  Claim C5. For every user, the gate compares the clock with the timestamp that the
  dictionary reads for the user, and a missing entry is read as 0.0, the epoch. A first
  request of a user is therefore allowed exactly when the clock reads at least 5 seconds
  past the epoch, as every value of \<open>time.time()\<close> does while the bot runs. A request
  less than 5 seconds after the user's timestamp is rejected and the timestamp read for
  the user stays the same; a request at least 5 seconds after it is allowed and its time
  becomes the user's timestamp. Hence two calls less than 5 seconds apart yield
  (allowed, rejected) and two calls at least 5 seconds apart yield (allowed, allowed).
  The timestamps of other users are not touched.
\<close>

theorem rate_limit_gate_cooldown:
  "(user_last_request s u = None \<longrightarrow> fst (rate_limit_gate u now s) = (5 \<le> now))
   \<and> (user_last_request s u = None \<and> 5 \<le> now \<longrightarrow>
      rate_limit_gate u now s = (True, s\<lparr>user_last_request := (user_last_request s)(u \<mapsto> now)\<rparr>))
   \<and> (now - last_request s u < 5 \<longrightarrow>
        \<not> fst (rate_limit_gate u now s)
        \<and> last_request (snd (rate_limit_gate u now s)) u = last_request s u)
   \<and> (5 \<le> now - last_request s u \<longrightarrow>
        fst (rate_limit_gate u now s)
        \<and> user_last_request (snd (rate_limit_gate u now s)) u = Some now
        \<and> last_request (snd (rate_limit_gate u now s)) u = now)
   \<and> (fst (rate_limit_gate u t1 s) \<and> t2 - t1 < 5 \<longrightarrow>
        \<not> fst (rate_limit_gate u t2 (snd (rate_limit_gate u t1 s))))
   \<and> (fst (rate_limit_gate u t1 s) \<and> 5 \<le> t2 - t1 \<longrightarrow>
        fst (rate_limit_gate u t2 (snd (rate_limit_gate u t1 s))))
   \<and> (user_last_request s u = None \<and> 5 \<le> t1 \<and> t2 - t1 < 5 \<longrightarrow>
        (fst (rate_limit_gate u t1 s), fst (rate_limit_gate u t2 (snd (rate_limit_gate u t1 s))))
          = (True, False))
   \<and> (user_last_request s u = None \<and> 5 \<le> t1 \<and> 5 \<le> t2 - t1 \<longrightarrow>
        (fst (rate_limit_gate u t1 s), fst (rate_limit_gate u t2 (snd (rate_limit_gate u t1 s))))
          = (True, True))
   \<and> (u' \<noteq> u \<longrightarrow> last_request (snd (rate_limit_gate u now s)) u' = last_request s u')"
  by (auto simp add: rate_limit_gate_def last_request_def defaultdict_get_def RATE_LIMIT_SECONDS_def
      split: option.splits)

theorem rate_limit_gate_cooldown_witness:
  "user_last_request initial_state 7 = None
   \<and> rate_limit_gate 7 100 initial_state = (True, \<lparr>user_last_request = [7 \<mapsto> 100], fact_cache = Map.empty\<rparr>)
   \<and> (fst (rate_limit_gate 7 100 initial_state),
       fst (rate_limit_gate 7 103 (snd (rate_limit_gate 7 100 initial_state)))) = (True, False)
   \<and> (fst (rate_limit_gate 7 100 initial_state),
       fst (rate_limit_gate 7 105 (snd (rate_limit_gate 7 100 initial_state)))) = (True, True)
   \<and> last_request (snd (rate_limit_gate 7 100 initial_state)) 8 = 0"
proof -
  have n: "user_last_request initial_state 7 = None" by (simp add: initial_state_def)
  note early = rate_limit_gate_cooldown [of initial_state 7 100 100 103 8]
  note late = rate_limit_gate_cooldown [of initial_state 7 100 100 105 8]
  have h1: "(5::real) \<le> 100" and h2: "(103::real) - 100 < 5" and h3: "(5::real) \<le> 105 - 100"
    by simp_all
  from early n h1
  have a: "rate_limit_gate 7 100 initial_state =
      (True, initial_state\<lparr>user_last_request := (user_last_request initial_state)(7 \<mapsto> 100)\<rparr>)"
    by blast
  from early n h1 h2 have b: "(fst (rate_limit_gate 7 100 initial_state),
       fst (rate_limit_gate 7 103 (snd (rate_limit_gate 7 100 initial_state)))) = (True, False)"
    by blast
  have h4: "(8::int) \<noteq> 7" by simp
  from early h4 have c: "last_request (snd (rate_limit_gate 7 100 initial_state)) 8 = last_request initial_state 8"
    by blast
  from late n h1 h3 have d: "(fst (rate_limit_gate 7 100 initial_state),
       fst (rate_limit_gate 7 105 (snd (rate_limit_gate 7 100 initial_state)))) = (True, True)"
    by blast
  from a have a': "rate_limit_gate 7 100 initial_state =
      (True, \<lparr>user_last_request = [7 \<mapsto> 100], fact_cache = Map.empty\<rparr>)"
    by (simp add: initial_state_def)
  from c have c': "last_request (snd (rate_limit_gate 7 100 initial_state)) 8 = 0"
    by (simp add: last_request_initial)
  from n a' b c' d show ?thesis by blast
qed

section \<open>The handler\<close>

text \<open>
  Claim C10. For a request that passes input validation and the rate-limit gate, the gate
  has stored the time of the request as the user's timestamp in the state that the
  orchestrator is then run on, and nothing after that changes it: whatever the providers
  and the transport do (a verdict, a model failure, a timeout, a failed edit), the state
  after the handler holds that timestamp, and a later valid request of the same user less
  than 5 seconds after it is rejected by the rate limiter.
\<close>

theorem cooldown_consumed_by_every_outcome:
  assumes "claim_of upd \<noteq> []" and "length (claim_of upd) \<le> MAX_INPUT_LEN"
    and "\<not> now - last_request s (effective_user_id upd) < RATE_LIMIT_SECONDS"
  shows "rate_limit_gate (effective_user_id upd) now s =
           (True, s\<lparr>user_last_request := (user_last_request s)(effective_user_id upd \<mapsto> now)\<rparr>)
       \<and> handle_message e upd now s =
           (fst (run_fact_check e (claim_of upd) (effective_user_id upd)
                   (s\<lparr>user_last_request := (user_last_request s)(effective_user_id upd \<mapsto> now)\<rparr>)),
            [SendTyping, ReplyText THINKING] @
            snd (run_fact_check e (claim_of upd) (effective_user_id upd)
                   (s\<lparr>user_last_request := (user_last_request s)(effective_user_id upd \<mapsto> now)\<rparr>)))
       \<and> user_last_request (fst (handle_message e upd now s)) =
           (user_last_request s)(effective_user_id upd \<mapsto> now)
       \<and> (\<forall>e' upd' now'.
             effective_user_id upd' = effective_user_id upd \<and> claim_of upd' \<noteq> [] \<and>
             length (claim_of upd') \<le> MAX_INPUT_LEN \<and> now' - now < 5 \<longrightarrow>
             handle_message e' upd' now' (fst (handle_message e upd now s)) =
               (fst (handle_message e upd now s), [ReplyText PLEASE_WAIT]))"
proof -
  let ?u = "effective_user_id upd"
  let ?s1 = "s\<lparr>user_last_request := (user_last_request s)(?u \<mapsto> now)\<rparr>"
  let ?s' = "fst (handle_message e upd now s)"
  have g: "rate_limit_gate ?u now s = (True, ?s1)"
    using assms(3) by (rule gate_accepts)
  have h: "handle_message e upd now s =
      (fst (run_fact_check e (claim_of upd) ?u ?s1),
       [SendTyping, ReplyText THINKING] @ snd (run_fact_check e (claim_of upd) ?u ?s1))"
    using assms by (rule handle_message_accepted)
  have t: "user_last_request ?s' = (user_last_request s)(?u \<mapsto> now)"
    by (simp add: h run_fact_check_state fact_check_user_last_request)
  have later: "handle_message e' upd' now' ?s' = (?s', [ReplyText PLEASE_WAIT])"
    if "effective_user_id upd' = ?u" "claim_of upd' \<noteq> []"
      "length (claim_of upd') \<le> MAX_INPUT_LEN" "now' - now < 5" for e' upd' now'
  proof -
    from t have l: "user_last_request ?s' (effective_user_id upd') = Some now"
      using that(1) by simp
    then have "now' - last_request ?s' (effective_user_id upd') < RATE_LIMIT_SECONDS"
      using that(4) by (simp add: last_request_Some RATE_LIMIT_SECONDS_def)
    from handle_message_limited [OF that(2) that(3) this] l
    show ?thesis by (simp add: defaultdict_get_Some)
  qed
  from g h t later show ?thesis by blast
qed

theorem cooldown_consumed_by_every_outcome_witness:
  "claim_of moon_update \<noteq> [] \<and> length (claim_of moon_update) \<le> MAX_INPUT_LEN
   \<and> \<not> 100 - last_request initial_state (effective_user_id moon_update) < RATE_LIMIT_SECONDS
   \<and> snd (handle_message env_slow moon_update 100 initial_state) =
       [SendTyping, ReplyText THINKING, SearchCall (search_request MOON),
        ModelCall (make_request MOON (lit ''The moon is composed of rock and dust.'') 7) Cancelled,
        EditText TIMED_OUT]
   \<and> user_last_request (fst (handle_message env_slow moon_update 100 initial_state)) = [7 \<mapsto> 100]
   \<and> snd (handle_message env_moon moon_update 103
             (fst (handle_message env_slow moon_update 100 initial_state))) = [ReplyText PLEASE_WAIT]"
proof -
  have v1: "claim_of moon_update \<noteq> []" by (simp add: claim_of_moon_update MOON_nonempty)
  have v2: "length (claim_of moon_update) \<le> MAX_INPUT_LEN"
    by (simp add: claim_of_moon_update length_MOON MAX_INPUT_LEN_def)
  have v3: "\<not> 100 - last_request initial_state (effective_user_id moon_update) < RATE_LIMIT_SECONDS"
    by (simp add: last_request_initial RATE_LIMIT_SECONDS_def)
  note c = cooldown_consumed_by_every_outcome [OF v1 v2 v3, of env_slow]
  have u: "effective_user_id moon_update = 7" by (simp add: moon_update_def)
  let ?s1 = "initial_state\<lparr>user_last_request :=
      (user_last_request initial_state)(effective_user_id moon_update \<mapsto> 100)\<rparr>"
  from c have c2: "handle_message env_slow moon_update 100 initial_state =
      (fst (run_fact_check env_slow (claim_of moon_update) (effective_user_id moon_update) ?s1),
       [SendTyping, ReplyText THINKING] @
       snd (run_fact_check env_slow (claim_of moon_update) (effective_user_id moon_update) ?s1))"
    by blast
  from c have c3: "user_last_request (fst (handle_message env_slow moon_update 100 initial_state)) =
      (user_last_request initial_state)(effective_user_id moon_update \<mapsto> 100)"
    by blast
  from c have c4: "effective_user_id moon_update = effective_user_id moon_update \<and>
      claim_of moon_update \<noteq> [] \<and> length (claim_of moon_update) \<le> MAX_INPUT_LEN \<and>
      (103::real) - 100 < 5 \<longrightarrow>
      handle_message env_moon moon_update 103 (fst (handle_message env_slow moon_update 100 initial_state)) =
        (fst (handle_message env_slow moon_update 100 initial_state), [ReplyText PLEASE_WAIT])"
    by blast
  from c3 have t: "user_last_request (fst (handle_message env_slow moon_update 100 initial_state)) = [7 \<mapsto> 100]"
    by (simp add: u initial_state_def)
  from c4 v1 v2 have w: "snd (handle_message env_moon moon_update 103
             (fst (handle_message env_slow moon_update 100 initial_state))) = [ReplyText PLEASE_WAIT]"
    by simp
  have "fact_cache ?s1 MOON = None"
    by (simp add: initial_state_def)
  from fact_check_slow_moon [OF this]
  have ev: "snd (handle_message env_slow moon_update 100 initial_state) =
       [SendTyping, ReplyText THINKING, SearchCall (search_request MOON),
        ModelCall (make_request MOON (lit ''The moon is composed of rock and dust.'') 7) Cancelled,
        EditText TIMED_OUT]"
    by (simp add: c2 u claim_of_moon_update run_fact_check_def)
  from v1 v2 v3 ev t w show ?thesis by blast
qed

section \<open>The sources section\<close>

text \<open>
  Claim C6, as amended. When a call of \<open>fact_check\<close> misses the cache, retrieves evidence
  that is not blank and gets a response from the model provider, the verdict it returns
  is the stripped model output, followed, when the evidence bundle carries N > 0 URLs, by
  the \<open>Sources:\<close> header and N entries joined by line feeds, one entry for each URL in
  retrieval order and with duplicates, each entry being the line prefix of line 146
  (\<open>BULLET\<close>) followed by the HTML-escaped URL. When no URL contains a line feed, the
  entries are exactly the N lines after the header, one URL on each line. When the bundle
  carries no URL, the verdict is the stripped model output and nothing is appended. The
  URLs of the bundle are the non-empty URLs of the results, in the order of the results,
  whether or not a result has content.
\<close>

theorem sources_section_on_success:
  assumes "fact_cache s claim = None"
    and "search_web (tavily_search e) claim = (evidence, urls)"
    and "strip evidence \<noteq> []"
    and "openai_create e (make_request claim evidence uid) = Done out"
  shows "(urls \<noteq> [] \<longrightarrow>
            fst (fact_check e claim uid s) =
              Return (strip out @ lit ''\<newline>\<newline><b>Sources:</b>\<newline>'' @
                      str_join (lit ''\<newline>'') (map (\<lambda>u. BULLET @ escape u) urls))
            \<and> ((\<forall>u \<in> set urls. 10 \<notin> set u) \<longrightarrow>
                 split_on 10 (str_join (lit ''\<newline>'') (map (\<lambda>u. BULLET @ escape u) urls))
                   = map (\<lambda>u. BULLET @ escape u) urls
                 \<and> length (split_on 10
                      (str_join (lit ''\<newline>'') (map (\<lambda>u. BULLET @ escape u) urls)))
                   = length urls))
       \<and> (urls = [] \<longrightarrow> fst (fact_check e claim uid s) = Return (strip out))
       \<and> (\<forall>response. tavily_search e (search_request claim) = Returned response \<longrightarrow>
            urls = [u. r \<leftarrow> (case resp_results response of Some rs \<Rightarrow> rs | None \<Rightarrow> []),
                       Some u \<leftarrow> [r_url r], u \<noteq> []])"
proof -
  have r: "fst (fact_check e claim uid s) = Return (add_sources (strip out) urls)"
    by (simp add: fact_check_done [OF assms])
  have sl: "source_lines urls = map (\<lambda>u. BULLET @ escape u) urls"
    by (simp add: source_lines_def)
  have lines: "split_on 10 (str_join (lit ''\<newline>'') (source_lines urls)) = source_lines urls"
    if "urls \<noteq> []" "\<forall>u \<in> set urls. 10 \<notin> set u"
  proof -
    from that(1) have "source_lines urls \<noteq> []" by (simp add: source_lines_def)
    with source_lines_no_newline [OF that(2)] show ?thesis
      by (simp add: lit_newline split_on_join)
  qed
  have order: "urls = [u. r \<leftarrow> (case resp_results response of Some rs \<Rightarrow> rs | None \<Rightarrow> []),
                       Some u \<leftarrow> [r_url r], u \<noteq> []]"
    if "tavily_search e (search_request claim) = Returned response" for response
    using search_web_urls [of "tavily_search e" claim response] that assms(2) by simp
  from r lines have "(urls \<noteq> [] \<longrightarrow>
            fst (fact_check e claim uid s) =
              Return (strip out @ lit ''\<newline>\<newline><b>Sources:</b>\<newline>'' @
                      str_join (lit ''\<newline>'') (map (\<lambda>u. BULLET @ escape u) urls))
            \<and> ((\<forall>u \<in> set urls. 10 \<notin> set u) \<longrightarrow>
                 split_on 10 (str_join (lit ''\<newline>'') (map (\<lambda>u. BULLET @ escape u) urls))
                   = map (\<lambda>u. BULLET @ escape u) urls
                 \<and> length (split_on 10
                      (str_join (lit ''\<newline>'') (map (\<lambda>u. BULLET @ escape u) urls)))
                   = length urls))
       \<and> (urls = [] \<longrightarrow> fst (fact_check e claim uid s) = Return (strip out))"
    by (auto simp add: add_sources_def SOURCES_HEADER_def sl)
  with order show ?thesis by blast
qed

theorem sources_section_on_success_witness:
  "fact_cache initial_state MOON = None
   \<and> search_web (tavily_search env_moon) MOON =
       (lit ''The moon is composed of rock and dust.'', [lit ''https://example.com/moon?a=1&b=2''])
   \<and> fst (fact_check env_moon MOON 7 initial_state) =
       Return (lit ''<b>Verdict:</b> False'' @ lit ''\<newline>\<newline><b>Sources:</b>\<newline>'' @
               BULLET @ lit ''https://example.com/moon?a=1&amp;b=2'')
   \<and> split_on 10 (BULLET @ lit ''https://example.com/moon?a=1&amp;b=2'') =
       [BULLET @ lit ''https://example.com/moon?a=1&amp;b=2'']
   \<and> tavily_search env_moon (search_request MOON) = Returned moon_response
   \<and> [u. r \<leftarrow> (case resp_results moon_response of Some rs \<Rightarrow> rs | None \<Rightarrow> []),
          Some u \<leftarrow> [r_url r], u \<noteq> []] = [lit ''https://example.com/moon?a=1&b=2'']
   \<and> search_web (tavily_search env_answer_only) MOON = (lit ''Summary: Rock and dust.'', [])
   \<and> fst (fact_check env_answer_only MOON 7 initial_state) = Return (lit ''<b>Verdict:</b> False'')"
proof -
  have c: "fact_cache initial_state MOON = None" by (simp add: initial_state_def)
  have esc: "escape (lit ''https://example.com/moon?a=1&b=2'') = lit ''https://example.com/moon?a=1&amp;b=2''"
    by (simp add: escape_def escape_char_def lit_def)
  have s1: "search_web (tavily_search env_moon) MOON =
       (lit ''The moon is composed of rock and dust.'', [lit ''https://example.com/moon?a=1&b=2''])"
    by (simp add: env_moon_def search_moon)
  have m1: "openai_create env_moon (make_request MOON (lit ''The moon is composed of rock and dust.'') 7)
      = Done (lit ''<b>Verdict:</b> False\<newline>'')"
    by (simp add: env_moon_def openai_false_def)
  have nl: "\<forall>u \<in> set [lit ''https://example.com/moon?a=1&b=2'']. 10 \<notin> set u"
    by (simp add: lit_def)
  note w1 = sources_section_on_success [OF c s1 moon_content_nonempty m1]
  from w1 have a1: "fst (fact_check env_moon MOON 7 initial_state) =
       Return (lit ''<b>Verdict:</b> False'' @ lit ''\<newline>\<newline><b>Sources:</b>\<newline>'' @
               BULLET @ lit ''https://example.com/moon?a=1&amp;b=2'')"
    by (simp add: strip_false esc)
  from w1 nl have a2: "split_on 10 (BULLET @ lit ''https://example.com/moon?a=1&amp;b=2'') =
       [BULLET @ lit ''https://example.com/moon?a=1&amp;b=2'']"
    by (simp add: esc)
  have s2: "search_web (tavily_search env_answer_only) MOON = (lit ''Summary: Rock and dust.'', [])"
    by (simp add: env_answer_only_def search_answer_only)
  have n2: "strip (lit ''Summary: Rock and dust.'') \<noteq> []"
    by (simp add: strip_eq_Nil_iff lit_def isspace_def)
  have m2: "openai_create env_answer_only (make_request MOON (lit ''Summary: Rock and dust.'') 7)
      = Done (lit ''<b>Verdict:</b> False\<newline>'')"
    by (simp add: env_answer_only_def openai_false_def)
  from sources_section_on_success [OF c s2 n2 m2]
  have a3: "fst (fact_check env_answer_only MOON 7 initial_state) = Return (lit ''<b>Verdict:</b> False'')"
    by (simp add: strip_false)
  have p: "tavily_search env_moon (search_request MOON) = Returned moon_response"
    by (simp add: env_moon_def tavily_moon_def)
  with w1 have a4: "[u. r \<leftarrow> (case resp_results moon_response of Some rs \<Rightarrow> rs | None \<Rightarrow> []),
          Some u \<leftarrow> [r_url r], u \<noteq> []] = [lit ''https://example.com/moon?a=1&b=2'']"
    by simp
  from c s1 a1 a2 p a4 s2 a3 show ?thesis by blast
qed

text \<open>
  Claim C6 as worded covers every call whose bundle carries URLs and counts one line for
  each URL. A result with a URL and no content contributes a URL and no evidence text:
  the bundle then carries one URL, the evidence is empty, and \<open>fact_check\<close> returns the
  fixed insufficient-evidence verdict, which has no \<open>Sources:\<close> section. And a URL is
  escaped for HTML only, so a line feed inside it stays: on the success path a bundle with
  one such URL gives a section of two lines.
\<close>

theorem url_without_evidence_has_no_sources_section:
  "search_web (tavily_search env_url_only) MOON = ([], [lit ''https://example.com/moon''])
   \<and> fact_check env_url_only MOON 7 initial_state =
       (Return INSUFFICIENT_EVIDENCE, initial_state, [SearchCall (search_request MOON)])
   \<and> \<not> sublist (lit ''Sources:'') INSUFFICIENT_EVIDENCE
   \<and> snd (search_web (tavily_search env_linefeed) MOON) = [lit ''https://example.com/a\<newline>b'']
   \<and> fst (fact_check env_linefeed MOON 7 initial_state) =
       Return (lit ''<b>Verdict:</b> False'' @ lit ''\<newline>\<newline><b>Sources:</b>\<newline>'' @
               BULLET @ lit ''https://example.com/a\<newline>b'')
   \<and> length (split_on 10 (BULLET @ lit ''https://example.com/a\<newline>b'')) = 2"
proof -
  have s: "search_web (tavily_search env_url_only) MOON = ([], [lit ''https://example.com/moon''])"
    by (simp add: env_url_only_def search_url_only)
  have c: "fact_cache initial_state MOON = None" by (simp add: initial_state_def)
  have f: "fact_check env_url_only MOON 7 initial_state =
       (Return INSUFFICIENT_EVIDENCE, initial_state, [SearchCall (search_request MOON)])"
    by (rule fact_check_blank [OF c]) (simp add: s)
  have n: "\<not> sublist (lit ''Sources:'') INSUFFICIENT_EVIDENCE"
    by (simp add: lit_def INSUFFICIENT_EVIDENCE_def sublist_Cons_right prefix_Cons)
  have u: "snd (search_web (tavily_search env_linefeed) MOON) = [lit ''https://example.com/a\<newline>b'']"
    by (simp add: env_linefeed_def search_linefeed)
  have v: "fst (fact_check env_linefeed MOON 7 initial_state) =
       Return (lit ''<b>Verdict:</b> False'' @ lit ''\<newline>\<newline><b>Sources:</b>\<newline>'' @
               BULLET @ lit ''https://example.com/a\<newline>b'')"
    using fact_check_env_linefeed [OF c, of 7] by (simp add: SOURCES_HEADER_def)
  have l: "length (split_on 10 (BULLET @ lit ''https://example.com/a\<newline>b'')) = 2"
    by (simp add: split_linefeed_line)
  from s f n u v l show ?thesis by blast
qed

section \<open>Cache keys\<close>

text \<open>
  Claim C8, as amended. \<open>fact_check\<close> uses the claim string it is given verbatim, with no
  case or whitespace normalization: the cache is read at exactly that key, a call changes
  the cache at no other key, and every search it issues has exactly that string as its
  query. The handler passes the message text with leading and trailing whitespace
  removed, so the key and the query of a message are its trimmed text: two messages are
  distinct cache entries when their trimmed texts differ.
\<close>

theorem claim_used_verbatim_after_trimming:
  "(\<forall>c'. c' \<noteq> claim \<longrightarrow> fact_cache (fst (snd (fact_check e claim uid s))) c' = fact_cache s c')
   \<and> (\<forall>v. fact_cache s claim = Some v \<longrightarrow> fact_check e claim uid s = (Return v, s, []))
   \<and> (fact_cache s claim = None \<longrightarrow>
        hd (snd (snd (fact_check e claim uid s))) = SearchCall (search_request claim))
   \<and> (\<forall>rq. SearchCall rq \<in> set (snd (snd (fact_check e claim uid s))) \<longrightarrow> query rq = claim)
   \<and> (\<forall>c'. c' \<noteq> strip (case message_text upd of Some t \<Rightarrow> t | None \<Rightarrow> []) \<longrightarrow>
          fact_cache (fst (handle_message e upd now s)) c' = fact_cache s c')
   \<and> (\<forall>rq. SearchCall rq \<in> set (snd (handle_message e upd now s)) \<longrightarrow>
          query rq = strip (case message_text upd of Some t \<Rightarrow> t | None \<Rightarrow> []))"
proof -
  have 1: "\<forall>c'. c' \<noteq> claim \<longrightarrow> fact_cache (fst (snd (fact_check e claim uid s))) c' = fact_cache s c'"
    by (simp add: fact_check_other_keys)
  have 2: "\<forall>v. fact_cache s claim = Some v \<longrightarrow> fact_check e claim uid s = (Return v, s, [])"
    by (simp add: fact_check_hit)
  have 3: "fact_cache s claim = None \<longrightarrow>
        hd (snd (snd (fact_check e claim uid s))) = SearchCall (search_request claim)"
    by (rule fact_check_cases [where s=s and c=claim and e=e and u=uid]) simp_all
  have 4: "\<forall>rq. SearchCall rq \<in> set (snd (snd (fact_check e claim uid s))) \<longrightarrow> query rq = claim"
    by (auto dest!: fact_check_search_query simp add: search_request_def)
  have 5: "\<forall>c'. c' \<noteq> claim_of upd \<longrightarrow> fact_cache (fst (handle_message e upd now s)) c' = fact_cache s c'"
    by (rule handle_message_cases [where upd=upd and e=e and now=now and s=s])
      (auto simp add: fact_check_other_keys)
  have 6: "\<forall>rq. SearchCall rq \<in> set (snd (handle_message e upd now s)) \<longrightarrow> query rq = claim_of upd"
    by (rule handle_message_cases [where upd=upd and e=e and now=now and s=s])
      (auto dest!: fact_check_search_query simp add: search_request_def)
  from 1 2 3 4 5 6 show ?thesis by (simp add: claim_of_def)
qed

theorem claim_used_verbatim_after_trimming_witness:
  "lit ''the moon is made of cheese'' \<noteq> MOON
   \<and> fact_cache (fst (snd (fact_check env_moon MOON 7 initial_state))) (lit ''the moon is made of cheese'')
       = None
   \<and> fact_cache initial_state MOON = None
   \<and> hd (snd (snd (fact_check env_moon MOON 7 initial_state))) = SearchCall (search_request MOON)
   \<and> SearchCall (search_request MOON) \<in> set (snd (handle_message env_moon moon_update_padded 100 initial_state))
   \<and> query (search_request MOON) = strip (MOON @ lit '' '')
   \<and> fact_cache moon_state MOON = Some MOON_VERDICT
   \<and> fact_check env_offline MOON 7 moon_state = (Return MOON_VERDICT, moon_state, [])"
proof -
  note w = claim_used_verbatim_after_trimming
    [of MOON env_moon 7 initial_state moon_update_padded 100]
  note w2 = claim_used_verbatim_after_trimming
    [of MOON env_offline 7 moon_state moon_update_padded 100]
  have d: "lit ''the moon is made of cheese'' \<noteq> MOON" by (simp add: MOON_def lit_def)
  have c: "fact_cache initial_state MOON = None" by (simp add: initial_state_def)
  from w d have a1: "fact_cache (fst (snd (fact_check env_moon MOON 7 initial_state)))
      (lit ''the moon is made of cheese'') = fact_cache initial_state (lit ''the moon is made of cheese'')"
    by blast
  then have a1': "fact_cache (fst (snd (fact_check env_moon MOON 7 initial_state)))
      (lit ''the moon is made of cheese'') = None"
    by (simp add: initial_state_def)
  from w c have a2: "hd (snd (snd (fact_check env_moon MOON 7 initial_state))) = SearchCall (search_request MOON)"
    by blast
  have v1: "claim_of moon_update_padded \<noteq> []" by (simp add: claim_of_moon_update_padded MOON_nonempty)
  have v2: "length (claim_of moon_update_padded) \<le> MAX_INPUT_LEN"
    by (simp add: claim_of_moon_update_padded length_MOON MAX_INPUT_LEN_def)
  have v3: "\<not> 100 - last_request initial_state (effective_user_id moon_update_padded) < RATE_LIMIT_SECONDS"
    by (simp add: last_request_initial RATE_LIMIT_SECONDS_def)
  have c': "fact_cache (initial_state\<lparr>user_last_request :=
      (user_last_request initial_state)(effective_user_id moon_update_padded \<mapsto> 100)\<rparr>) MOON = None"
    by (simp add: initial_state_def)
  have ed: "telegram_edit env_moon MOON_VERDICT = Returned ()"
    by (simp add: env_moon_def edit_ok_def)
  note r = run_fact_check_returned [OF fact_check_moon_miss [OF c'] ed]
  have a3: "SearchCall (search_request MOON) \<in> set (snd (handle_message env_moon moon_update_padded 100 initial_state))"
    by (simp add: handle_message_accepted [OF v1 v2 v3] claim_of_moon_update_padded r)
  with w have "query (search_request MOON) =
      strip (case message_text moon_update_padded of Some t \<Rightarrow> t | None \<Rightarrow> [])"
    by blast
  then have a4: "query (search_request MOON) = strip (MOON @ lit '' '')"
    by (simp add: moon_update_padded_def)
  have h: "fact_cache moon_state MOON = Some MOON_VERDICT" by (simp add: moon_state_def)
  with w2 have a5: "fact_check env_offline MOON 7 moon_state = (Return MOON_VERDICT, moon_state, [])"
    by blast
  from d a1' c a2 a3 a4 h a5 show ?thesis by blast
qed

text \<open>
  Claim C8 as worded speaks of the message strings that users submit. The handler
  trims them first: a message and the same message followed by a space are different
  strings with the same cache entry. After the first is answered, the second is answered
  from the cache, here by another user and with both providers out of service.
\<close>

theorem padded_message_shares_cache_entry:
  "message_text moon_update = Some MOON
   \<and> message_text moon_update_padded = Some (MOON @ lit '' '')
   \<and> MOON @ lit '' '' \<noteq> MOON
   \<and> snd (handle_message env_offline moon_update_padded 100
             (fst (handle_message env_moon moon_update 100 initial_state))) =
       [SendTyping, ReplyText THINKING, EditText MOON_VERDICT]
   \<and> fact_cache (fst (handle_message env_offline moon_update_padded 100
             (fst (handle_message env_moon moon_update 100 initial_state)))) MOON = Some MOON_VERDICT"
proof -
  let ?s = "\<lparr>user_last_request = [7 \<mapsto> 100], fact_cache = [MOON \<mapsto> MOON_VERDICT]\<rparr>"
  have v1: "claim_of moon_update_padded \<noteq> []" by (simp add: claim_of_moon_update_padded MOON_nonempty)
  have v2: "length (claim_of moon_update_padded) \<le> MAX_INPUT_LEN"
    by (simp add: claim_of_moon_update_padded length_MOON MAX_INPUT_LEN_def)
  have v3: "\<not> 100 - last_request ?s (effective_user_id moon_update_padded) < RATE_LIMIT_SECONDS"
    by (simp add: last_request_None moon_update_padded_def RATE_LIMIT_SECONDS_def)
  have h: "fact_cache (?s\<lparr>user_last_request :=
      (user_last_request ?s)(effective_user_id moon_update_padded \<mapsto> 100)\<rparr>) MOON = Some MOON_VERDICT"
    by simp
  have ed: "telegram_edit env_offline MOON_VERDICT = Returned ()"
    by (simp add: env_offline_def edit_ok_def)
  note r = run_fact_check_returned [OF fact_check_hit [OF h] ed]
  have second: "handle_message env_offline moon_update_padded 100 ?s =
      (?s\<lparr>user_last_request := (user_last_request ?s)(effective_user_id moon_update_padded \<mapsto> 100)\<rparr>,
       [SendTyping, ReplyText THINKING, EditText MOON_VERDICT])"
    by (simp only: handle_message_accepted [OF v1 v2 v3] claim_of_moon_update_padded r)
      simp
  have first: "fst (handle_message env_moon moon_update 100 initial_state) = ?s"
    by (simp add: handle_message_moon)
  have t1: "message_text moon_update = Some MOON" by (simp add: moon_update_def)
  have t2: "message_text moon_update_padded = Some (MOON @ lit '' '')"
    by (simp add: moon_update_padded_def)
  have t3: "MOON @ lit '' '' \<noteq> MOON" by (simp add: lit_def)
  from second have e: "snd (handle_message env_offline moon_update_padded 100 ?s) =
      [SendTyping, ReplyText THINKING, EditText MOON_VERDICT]"
    by simp
  from second have f: "fact_cache (fst (handle_message env_offline moon_update_padded 100 ?s)) MOON =
      Some MOON_VERDICT"
    by simp
  show ?thesis unfolding first using t1 t2 t3 e f by blast
qed

section \<open>What is cached\<close>

text \<open>
  Claim C7, as amended. In every state the bot can reach, each entry of the verdict cache
  is the rendering (stripped model output, with the sources section when there are URLs)
  of a response that the model provider returned for that very claim, whatever the text
  of the response: no entry comes from a model call that raised or was cancelled by the
  deadline. No entry is the timeout message or the unexpected-error message, and an entry
  reads like the model-failure message only when the model provider itself returned that
  text. In particular, when the model call raises, \<open>fact_check\<close> returns the generic
  failure message and the state, hence the cache, is the one it was given; the same holds
  when the call is cancelled by the deadline; and the handler changes the cache only in a
  run in which the model provider returned a response.
\<close>

theorem cache_holds_only_model_verdicts:
  "(reachable s hist \<longrightarrow>
      (\<forall>c v. fact_cache s c = Some v \<longrightarrow>
         (\<exists>evidence uid out urls.
            ModelCall (make_request c evidence uid) (Done out) \<in> set hist
            \<and> v = add_sources (strip out) urls
            \<and> (v = AI_FAILED \<longrightarrow> strip out = AI_FAILED))
         \<and> v \<noteq> TIMED_OUT \<and> v \<noteq> ERROR_PROCESSING))
   \<and> (fact_cache s claim = None \<and> search_web (tavily_search e) claim = (evidence, urls)
        \<and> strip evidence \<noteq> [] \<and> openai_create e (make_request claim evidence uid) = Failed x \<longrightarrow>
        fact_check e claim uid s =
          (Return (lit ''AI processing failed. Please try again later.''), s,
           [SearchCall (search_request claim), ModelCall (make_request claim evidence uid) (Failed x)]))
   \<and> (fact_cache s claim = None \<and> search_web (tavily_search e) claim = (evidence, urls)
        \<and> strip evidence \<noteq> [] \<and> openai_create e (make_request claim evidence uid) = Cancelled \<longrightarrow>
        fact_check e claim uid s =
          (CancelledError, s,
           [SearchCall (search_request claim), ModelCall (make_request claim evidence uid) Cancelled]))
   \<and> (fact_cache (fst (handle_message e upd now s)) \<noteq> fact_cache s \<longrightarrow>
        (\<exists>rq out. ModelCall rq (Done out) \<in> set (snd (handle_message e upd now s))))"
proof -
  have inv: "(\<exists>evidence uid out urls.
            ModelCall (make_request c evidence uid) (Done out) \<in> set hist
            \<and> v = add_sources (strip out) urls
            \<and> (v = AI_FAILED \<longrightarrow> strip out = AI_FAILED))
         \<and> v \<noteq> TIMED_OUT \<and> v \<noteq> ERROR_PROCESSING"
    if r: "reachable s hist" and c: "fact_cache s c = Some v" for c v
  proof -
    from cache_provenance [OF r c] obtain evidence uid out urls
      where m: "ModelCall (make_request c evidence uid) (Done out) \<in> set hist"
        and v: "v = add_sources (strip out) urls"
      by blast
    from v have f: "v = AI_FAILED \<longrightarrow> strip out = AI_FAILED"
      by (auto dest: add_sources_eq_AI_FAILED)
    have t: "TIMED_OUT \<noteq> [] \<and> hd TIMED_OUT = 32" by (simp add: TIMED_OUT_def lit_def)
    have p: "ERROR_PROCESSING \<noteq> [] \<and> hd ERROR_PROCESSING = 32"
      by (simp add: ERROR_PROCESSING_def lit_def)
    from v add_sources_no_leading_space [of out urls] have "v = [] \<or> hd v \<noteq> 32" by simp
    with t p have "v \<noteq> TIMED_OUT \<and> v \<noteq> ERROR_PROCESSING" by auto
    with m v f show ?thesis by blast
  qed
  have failed: "fact_check e claim uid s =
          (Return (lit ''AI processing failed. Please try again later.''), s,
           [SearchCall (search_request claim), ModelCall (make_request claim evidence uid) (Failed x)])"
    if "fact_cache s claim = None" "search_web (tavily_search e) claim = (evidence, urls)"
      "strip evidence \<noteq> []" "openai_create e (make_request claim evidence uid) = Failed x"
    using fact_check_failed [OF that] by (simp add: AI_FAILED_def)
  have cancelled: "fact_check e claim uid s =
          (CancelledError, s,
           [SearchCall (search_request claim), ModelCall (make_request claim evidence uid) Cancelled])"
    if "fact_cache s claim = None" "search_web (tavily_search e) claim = (evidence, urls)"
      "strip evidence \<noteq> []" "openai_create e (make_request claim evidence uid) = Cancelled"
    using that by (rule fact_check_cancelled)
  from inv failed cancelled handle_message_cache_changes [of e upd now s]
  show ?thesis by blast
qed

theorem cache_holds_only_model_verdicts_witness:
  "reachable \<lparr>user_last_request = [7 \<mapsto> 100], fact_cache = [MOON \<mapsto> MOON_VERDICT]\<rparr>
     [SendTyping, ReplyText THINKING, SearchCall (search_request MOON),
      ModelCall (make_request MOON (lit ''The moon is composed of rock and dust.'') 7)
        (Done (lit ''<b>Verdict:</b> False\<newline>'')),
      EditText MOON_VERDICT]
   \<and> MOON_VERDICT \<noteq> TIMED_OUT \<and> MOON_VERDICT \<noteq> ERROR_PROCESSING
   \<and> fact_check env_model_down MOON 7 initial_state =
       (Return AI_FAILED, initial_state,
        [SearchCall (search_request MOON),
         ModelCall (make_request MOON (lit ''The moon is composed of rock and dust.'') 7)
           (Failed (PyException (lit ''provider error'')))])
   \<and> fact_check env_slow MOON 7 initial_state =
       (CancelledError, initial_state,
        [SearchCall (search_request MOON),
         ModelCall (make_request MOON (lit ''The moon is composed of rock and dust.'') 7) Cancelled])
   \<and> fact_cache (fst (handle_message env_moon moon_update 100 initial_state)) \<noteq> fact_cache initial_state
   \<and> ModelCall (make_request MOON (lit ''The moon is composed of rock and dust.'') 7)
        (Done (lit ''<b>Verdict:</b> False\<newline>''))
       \<in> set (snd (handle_message env_moon moon_update 100 initial_state))"
proof -
  let ?s = "\<lparr>user_last_request = [7 \<mapsto> 100], fact_cache = [MOON \<mapsto> MOON_VERDICT]\<rparr>"
  let ?h = "[SendTyping, ReplyText THINKING, SearchCall (search_request MOON),
      ModelCall (make_request MOON (lit ''The moon is composed of rock and dust.'') 7)
        (Done (lit ''<b>Verdict:</b> False\<newline>'')),
      EditText MOON_VERDICT]"
  have r: "reachable ?s ?h"
    using reachable.message [OF reachable.start handle_message_moon] by simp
  have c: "fact_cache ?s MOON = Some MOON_VERDICT" by simp
  note w1 = cache_holds_only_model_verdicts [of ?s ?h]
  from w1 r c have a1: "MOON_VERDICT \<noteq> TIMED_OUT \<and> MOON_VERDICT \<noteq> ERROR_PROCESSING"
    by blast
  have n: "fact_cache initial_state MOON = None" by (simp add: initial_state_def)
  have s2: "search_web (tavily_search env_model_down) MOON =
      (lit ''The moon is composed of rock and dust.'', [lit ''https://example.com/moon?a=1&b=2''])"
    by (simp add: env_model_down_def search_moon)
  have m2: "openai_create env_model_down (make_request MOON (lit ''The moon is composed of rock and dust.'') 7)
      = Failed (PyException (lit ''provider error''))"
    by (simp add: env_model_down_def openai_down_def)
  note w2 = cache_holds_only_model_verdicts [of initial_state "[]" MOON env_model_down
      "lit ''The moon is composed of rock and dust.''" "[lit ''https://example.com/moon?a=1&b=2'']" 7
      "PyException (lit ''provider error'')"]
  from w2 n s2 m2 moon_content_nonempty
  have a2: "fact_check env_model_down MOON 7 initial_state =
       (Return AI_FAILED, initial_state,
        [SearchCall (search_request MOON),
         ModelCall (make_request MOON (lit ''The moon is composed of rock and dust.'') 7)
           (Failed (PyException (lit ''provider error'')))])"
    by (simp add: AI_FAILED_def)
  have s3: "search_web (tavily_search env_slow) MOON =
      (lit ''The moon is composed of rock and dust.'', [lit ''https://example.com/moon?a=1&b=2''])"
    by (simp add: env_slow_def search_moon)
  have m3: "openai_create env_slow (make_request MOON (lit ''The moon is composed of rock and dust.'') 7)
      = Cancelled"
    by (simp add: env_slow_def openai_slow_def)
  note w3 = cache_holds_only_model_verdicts [of initial_state "[]" MOON env_slow
      "lit ''The moon is composed of rock and dust.''" "[lit ''https://example.com/moon?a=1&b=2'']" 7]
  from w3 n s3 m3 moon_content_nonempty
  have a3: "fact_check env_slow MOON 7 initial_state =
       (CancelledError, initial_state,
        [SearchCall (search_request MOON),
         ModelCall (make_request MOON (lit ''The moon is composed of rock and dust.'') 7) Cancelled])"
    by simp
  have a4: "fact_cache (fst (handle_message env_moon moon_update 100 initial_state)) \<noteq> fact_cache initial_state"
  proof
    assume "fact_cache (fst (handle_message env_moon moon_update 100 initial_state)) = fact_cache initial_state"
    then have "fact_cache (fst (handle_message env_moon moon_update 100 initial_state)) MOON
        = fact_cache initial_state MOON"
      by simp
    then have "fact_cache initial_state MOON = Some MOON_VERDICT"
      by (simp add: handle_message_moon)
    then show False by (simp add: initial_state_def)
  qed
  have a5: "ModelCall (make_request MOON (lit ''The moon is composed of rock and dust.'') 7)
        (Done (lit ''<b>Verdict:</b> False\<newline>''))
       \<in> set (snd (handle_message env_moon moon_update 100 initial_state))"
    by (simp add: handle_message_moon)
  from r a1 a2 a3 a4 a5 show ?thesis by blast
qed

text \<open>
  Claim C7 as worded excludes the text of the model-failure message from the cache. The
  output of the model provider is cached whatever it says: a provider that answers with
  exactly that text, for a search response without URLs, leaves it in the cache as the
  verdict of the claim, and a provider that answers with the empty text leaves the empty
  text there.
\<close>

theorem model_output_equal_to_failure_text_is_cached:
  "openai_create env_parrot (make_request MOON (lit ''Summary: Rock and dust.'') 7) =
     Done (lit ''AI processing failed. Please try again later.'')
   \<and> AI_FAILED = lit ''AI processing failed. Please try again later.''
   \<and> fact_cache (fst (handle_message env_parrot moon_update 100 initial_state)) MOON = Some AI_FAILED
   \<and> reachable (fst (handle_message env_parrot moon_update 100 initial_state))
         (snd (handle_message env_parrot moon_update 100 initial_state))
   \<and> fact_cache (fst (handle_message env_empty moon_update 100 initial_state)) MOON = Some []"
proof -
  have m: "openai_create env_parrot (make_request MOON (lit ''Summary: Rock and dust.'') 7) =
     Done (lit ''AI processing failed. Please try again later.'')"
    by (simp add: env_parrot_def openai_parrot_def)
  have a: "AI_FAILED = lit ''AI processing failed. Please try again later.''"
    by (simp add: AI_FAILED_def)
  have "reachable (fst (handle_message env_parrot moon_update 100 initial_state))
         ([] @ snd (handle_message env_parrot moon_update 100 initial_state))"
    by (rule reachable.message [OF reachable.start]) simp
  then have r: "reachable (fst (handle_message env_parrot moon_update 100 initial_state))
         (snd (handle_message env_parrot moon_update 100 initial_state))"
    by simp
  from m a handle_message_parrot r handle_message_empty show ?thesis by blast
qed

end
